theory Spec2Isabelle
  imports Complex_Main
begin

section \<open>Text primitives\<close>

text \<open>
  Python strings are modelled as \<open>string\<close> (lists of characters) over the ASCII alphabet:
  the character classes below are the ASCII part of Python's \<open>str.isspace\<close>,
  \<open>\d\<close>, \<open>\w\<close>, \<open>str.upper\<close> and \<open>str.lower\<close>. A character
  with code above 127 is in none of the classes and is left alone by the case mappings.
\<close>

fun one_of :: "string \<Rightarrow> char \<Rightarrow> bool" where
  \<comment> \<open>a character class given by its members\<close>
  "one_of [] c = False"
| "one_of (x # xs) c = (c = x \<or> one_of xs c)"

definition upper_letters :: string where
  "upper_letters = ''ABCDEFGHIJKLMNOPQRSTUVWXYZ''"

definition lower_letters :: string where
  "lower_letters = ''abcdefghijklmnopqrstuvwxyz''"

definition is_digit :: "char \<Rightarrow> bool" where
  "is_digit c = one_of ''0123456789'' c"

definition is_upper :: "char \<Rightarrow> bool" where
  "is_upper c = one_of upper_letters c"

definition is_lower :: "char \<Rightarrow> bool" where
  "is_lower c = one_of lower_letters c"

definition is_alpha :: "char \<Rightarrow> bool" where
  "is_alpha c = (is_upper c \<or> is_lower c)"

definition is_space :: "char \<Rightarrow> bool" where
  \<comment> \<open>\<open>\s\<close> and \<open>str.isspace\<close> on ASCII: space, TAB, LF, VT, FF, CR and the
      separators 0x1C..0x1F\<close>
  "is_space c = one_of [CHR '' '', CHR 0x09, CHR 0x0A, CHR 0x0B, CHR 0x0C, CHR 0x0D,
                        CHR 0x1C, CHR 0x1D, CHR 0x1E, CHR 0x1F] c"

definition is_word :: "char \<Rightarrow> bool" where
  \<comment> \<open>\<open>\w\<close> on ASCII\<close>
  "is_word c = (is_upper c \<or> is_lower c \<or> is_digit c \<or> c = CHR ''_'')"

definition upper_char :: "char \<Rightarrow> char" where
  "upper_char c = (case map_of (zip lower_letters upper_letters) c of Some u \<Rightarrow> u | None \<Rightarrow> c)"

definition lower_char :: "char \<Rightarrow> char" where
  "lower_char c = (case map_of (zip upper_letters lower_letters) c of Some l \<Rightarrow> l | None \<Rightarrow> c)"

definition upper :: "string \<Rightarrow> string" where
  "upper s = map upper_char s"

definition lower :: "string \<Rightarrow> string" where
  "lower s = map lower_char s"

definition strip :: "string \<Rightarrow> string" where
  \<comment> \<open>\<open>str.strip()\<close>\<close>
  "strip s = rev (dropWhile is_space (rev (dropWhile is_space s)))"

fun startswith :: "string \<Rightarrow> string \<Rightarrow> bool" where
  \<comment> \<open>\<open>s.startswith(p)\<close>\<close>
  "startswith s [] = True"
| "startswith [] (p # ps) = False"
| "startswith (c # cs) (p # ps) = (c = p \<and> startswith cs ps)"

fun contains :: "string \<Rightarrow> string \<Rightarrow> bool" where
  \<comment> \<open>\<open>w in s\<close>: \<open>contains w s\<close>\<close>
  "contains w [] = (w = [])"
| "contains w (c # cs) = (startswith (c # cs) w \<or> contains w cs)"

definition py_any :: "('a \<Rightarrow> bool) \<Rightarrow> 'a list \<Rightarrow> bool" where
  "py_any P xs = list_ex P xs"

section \<open>Regular expressions as Python's \<open>re\<close> matches them\<close>

text \<open>
  A backtracking matcher: \<open>rx_run r st\<close> lists, in the order in which Python's engine
  tries them, the states in which a match of \<open>r\<close> started in \<open>st\<close> can end. A state is
  the character before the position (for \<open>\b\<close> and \<open>^\<close>), the text from the position on,
  and the groups captured so far. The first element of the list is the match Python reports.
\<close>

datatype rx =
    Chr "char \<Rightarrow> bool"   \<comment> \<open>one character of a class\<close>
  | Eps
  | Seq rx rx
  | Alt rx rx            \<comment> \<open>\<open>a|b\<close>, left first\<close>
  | Star rx              \<comment> \<open>greedy \<open>*\<close>\<close>
  | LazyStar rx          \<comment> \<open>\<open>*?\<close>\<close>
  | Bnd                  \<comment> \<open>\<open>\b\<close>\<close>
  | Bos                  \<comment> \<open>\<open>^\<close> without MULTILINE\<close>
  | Eos                  \<comment> \<open>\<open>$\<close> without MULTILINE\<close>
  | Grp nat rx           \<comment> \<open>capturing group with its number\<close>

type_synonym mstate = "char option \<times> string \<times> (nat \<times> string) list"

definition at_boundary :: "char option \<Rightarrow> string \<Rightarrow> bool" where
  "at_boundary prev rest =
     ((case prev of None \<Rightarrow> False | Some c \<Rightarrow> is_word c) \<noteq>
      (case rest of [] \<Rightarrow> False | c # _ \<Rightarrow> is_word c))"

function rx_run :: "rx \<Rightarrow> mstate \<Rightarrow> mstate list" where
  "rx_run (Chr P) (prev, rest, caps) =
     (case rest of [] \<Rightarrow> [] | c # cs \<Rightarrow> if P c then [(Some c, cs, caps)] else [])"
| "rx_run Eps st = [st]"
| "rx_run (Seq a b) st = concat (map (rx_run b) (rx_run a st))"
| "rx_run (Alt a b) st = rx_run a st @ rx_run b st"
| "rx_run (Star a) (prev, rest, caps) =
     concat (map (rx_run (Star a))
       (filter (\<lambda>st'. length (fst (snd st')) < length rest) (rx_run a (prev, rest, caps))))
     @ [(prev, rest, caps)]"
| "rx_run (LazyStar a) (prev, rest, caps) =
     (prev, rest, caps) #
     concat (map (rx_run (LazyStar a))
       (filter (\<lambda>st'. length (fst (snd st')) < length rest) (rx_run a (prev, rest, caps))))"
| "rx_run Bnd (prev, rest, caps) = (if at_boundary prev rest then [(prev, rest, caps)] else [])"
| "rx_run Bos (prev, rest, caps) = (if prev = None then [(prev, rest, caps)] else [])"
| "rx_run Eos (prev, rest, caps) =
     (if rest = [] \<or> rest = [CHR 0x0A] then [(prev, rest, caps)] else [])"
| "rx_run (Grp n a) (prev, rest, caps) =
     map (\<lambda>(p', r', c'). (p', r', (n, take (length rest - length r') rest) # c'))
       (rx_run a (prev, rest, caps))"
  by pat_completeness auto
termination
  by (relation "inv_image (less_than <*lex*> less_than)
                  (\<lambda>(r, st). (size r, length (fst (snd st))))") auto

text \<open>Building blocks for the notation of \<open>re\<close>.\<close>

definition rx_plus :: "rx \<Rightarrow> rx" where
  "rx_plus r = Seq r (Star r)"

definition rx_lazy_plus :: "rx \<Rightarrow> rx" where
  "rx_lazy_plus r = Seq r (LazyStar r)"

definition rx_opt :: "rx \<Rightarrow> rx" where
  "rx_opt r = Alt r Eps"

fun rx_rep :: "nat \<Rightarrow> rx \<Rightarrow> rx" where
  \<comment> \<open>\<open>r{n}\<close>\<close>
  "rx_rep 0 r = Eps"
| "rx_rep (Suc n) r = Seq r (rx_rep n r)"

fun rx_upto :: "nat \<Rightarrow> rx \<Rightarrow> rx" where
  \<comment> \<open>\<open>r{0,n}\<close>, greedy\<close>
  "rx_upto 0 r = Eps"
| "rx_upto (Suc n) r = Alt (Seq r (rx_upto n r)) Eps"

definition rx_range :: "nat \<Rightarrow> nat \<Rightarrow> rx \<Rightarrow> rx" where
  \<comment> \<open>\<open>r{m,n}\<close>, greedy\<close>
  "rx_range m n r = Seq (rx_rep m r) (rx_upto (n - m) r)"

fun rx_seq :: "rx list \<Rightarrow> rx" where
  "rx_seq [] = Eps"
| "rx_seq [r] = r"
| "rx_seq (r # rs) = Seq r (rx_seq rs)"

fun rx_alt :: "rx list \<Rightarrow> rx" where
  "rx_alt [] = Chr (\<lambda>c. False)"
| "rx_alt [r] = r"
| "rx_alt (r # rs) = Alt r (rx_alt rs)"

definition rx_lit :: "string \<Rightarrow> rx" where
  \<comment> \<open>a literal string\<close>
  "rx_lit s = rx_seq (map (\<lambda>c. Chr (\<lambda>x. x = c)) s)"

definition ic :: "(char \<Rightarrow> bool) \<Rightarrow> char \<Rightarrow> bool" where
  \<comment> \<open>a class under \<open>re.IGNORECASE\<close>\<close>
  "ic P c = (P c \<or> P (lower_char c) \<or> P (upper_char c))"

definition rx_lit_ic :: "string \<Rightarrow> rx" where
  \<comment> \<open>a literal string under \<open>re.IGNORECASE\<close>\<close>
  "rx_lit_ic s = rx_seq (map (\<lambda>c. Chr (ic (\<lambda>x. x = c))) s)"

text \<open>
  \<open>re.search\<close>, \<open>re.match\<close>, \<open>re.findall\<close> and \<open>re.sub\<close>. A match is reported as
  its groups, group 0 being the whole match.
\<close>

type_synonym rx_match = "(nat \<times> string) list"

definition group :: "rx_match \<Rightarrow> nat \<Rightarrow> string option" where
  \<comment> \<open>\<open>m.group(n)\<close>; \<open>None\<close> for a group that took no part in the match\<close>
  "group m n = map_of m n"

definition group_str :: "rx_match \<Rightarrow> nat \<Rightarrow> string" where
  \<comment> \<open>the group as \<open>re.findall\<close> returns it: empty when it took no part\<close>
  "group_str m n = (case map_of m n of None \<Rightarrow> [] | Some s \<Rightarrow> s)"

definition rx_match_at :: "rx \<Rightarrow> char option \<Rightarrow> string \<Rightarrow> mstate option" where
  "rx_match_at r prev s =
     (case rx_run (Grp 0 r) (prev, s, []) of [] \<Rightarrow> None | st # _ \<Rightarrow> Some st)"

definition re_match :: "rx \<Rightarrow> string \<Rightarrow> rx_match option" where
  \<comment> \<open>\<open>re.match(r, s)\<close>\<close>
  "re_match r s = map_option (\<lambda>(p, rest, caps). caps) (rx_match_at r None s)"

fun rx_search_from :: "rx \<Rightarrow> char option \<Rightarrow> string \<Rightarrow> rx_match option" where
  "rx_search_from r prev s =
     (case rx_match_at r prev s of
        Some (p, rest, caps) \<Rightarrow> Some caps
      | None \<Rightarrow> (case s of [] \<Rightarrow> None | c # cs \<Rightarrow> rx_search_from r (Some c) cs))"

definition re_search :: "rx \<Rightarrow> string \<Rightarrow> rx_match option" where
  \<comment> \<open>\<open>re.search(r, s)\<close>: the leftmost match\<close>
  "re_search r s = rx_search_from r None s"

function rx_findall_from :: "rx \<Rightarrow> char option \<Rightarrow> string \<Rightarrow> rx_match list" where
  "rx_findall_from r prev s =
     (case rx_match_at r prev s of
        None \<Rightarrow> (case s of [] \<Rightarrow> [] | c # cs \<Rightarrow> rx_findall_from r (Some c) cs)
      | Some (p, rest, caps) \<Rightarrow>
          if length rest < length s then caps # rx_findall_from r p rest
          else caps # (case s of [] \<Rightarrow> [] | c # cs \<Rightarrow> rx_findall_from r (Some c) cs))"
  by pat_completeness auto
termination
  by (relation "measure (\<lambda>(r, prev, s). length s)") auto

definition re_findall :: "rx \<Rightarrow> string \<Rightarrow> rx_match list" where
  \<comment> \<open>\<open>re.findall(r, s)\<close>: the successive non-overlapping matches\<close>
  "re_findall r s = rx_findall_from r None s"

function rx_sub_from :: "rx \<Rightarrow> string \<Rightarrow> char option \<Rightarrow> string \<Rightarrow> string" where
  "rx_sub_from r repl prev s =
     (case rx_match_at r prev s of
        None \<Rightarrow> (case s of [] \<Rightarrow> [] | c # cs \<Rightarrow> c # rx_sub_from r repl (Some c) cs)
      | Some (p, rest, caps) \<Rightarrow>
          if length rest < length s then repl @ rx_sub_from r repl p rest
          else repl @ (case s of [] \<Rightarrow> [] | c # cs \<Rightarrow> c # rx_sub_from r repl (Some c) cs))"
  by pat_completeness auto
termination
  by (relation "measure (\<lambda>(r, repl, prev, s). length s)") auto

definition re_sub :: "rx \<Rightarrow> string \<Rightarrow> string \<Rightarrow> string" where
  \<comment> \<open>\<open>re.sub(r, repl, s)\<close> for a replacement without group references\<close>
  "re_sub r repl s = rx_sub_from r repl None s"

declare rx_search_from.simps [simp del] rx_findall_from.simps [simp del]
  rx_sub_from.simps [simp del]

section \<open>Name matching (\<open>NameMatcher\<close>)\<close>

definition titles_rx :: rx where
  \<comment> \<open>\<open>\b(KR|KUMAR|DEVI|SHRI|SMT|MR|MRS|MS|MISS|SRI)\b\<close>\<close>
  "titles_rx = rx_seq [Bnd,
     Grp 1 (rx_alt (map rx_lit [''KR'', ''KUMAR'', ''DEVI'', ''SHRI'', ''SMT'', ''MR'', ''MRS'',
                                ''MS'', ''MISS'', ''SRI''])),
     Bnd]"

definition not_upper_or_blank_rx :: rx where
  \<comment> \<open>\<open>[^A-Z ]\<close>\<close>
  "not_upper_or_blank_rx = Chr (\<lambda>c. \<not> (is_upper c \<or> c = CHR '' ''))"

definition spaces_rx :: rx where
  \<comment> \<open>\<open>\s+\<close>\<close>
  "spaces_rx = rx_plus (Chr is_space)"

definition normalize_name :: "string \<Rightarrow> string" where
  "normalize_name name =
     (if name = [] then []
      else strip (re_sub spaces_rx '' ''
             (re_sub not_upper_or_blank_rx []
               (re_sub titles_rx [] (upper name)))))"

record master_entry =
  m_raw :: string
  m_norm :: string
  m_row_no :: nat
  m_place :: string
  m_venue :: string

text \<open>
  \<open>rapidfuzz\<close> is not part of the repository: its two similarity functions are parameters
  \<open>partial_ratio\<close> and \<open>token_sort_ratio\<close>. Their scores are numbers between 0 and 100.
\<close>

type_synonym ratio = "string \<Rightarrow> string \<Rightarrow> real"

definition MATCH_THRESHOLD :: real where
  "MATCH_THRESHOLD = 85"

fun match_loop ::
  "ratio \<Rightarrow> ratio \<Rightarrow> string \<Rightarrow> master_entry list \<Rightarrow>
   (master_entry \<times> real) list \<times> real \<Rightarrow> (master_entry \<times> real) list \<times> real" where
  \<comment> \<open>the \<open>for master in master_names\<close> loop; the state is \<open>(matches, best_score)\<close>\<close>
  "match_loop partial_ratio token_sort_ratio norm_passenger [] acc = acc"
| "match_loop partial_ratio token_sort_ratio norm_passenger (master # rest) (matches, best_score) =
     (let partial_score = partial_ratio norm_passenger (m_norm master);
          token_score = token_sort_ratio norm_passenger (m_norm master);
          final_score = max partial_score token_score
      in if final_score \<ge> MATCH_THRESHOLD
         then match_loop partial_ratio token_sort_ratio norm_passenger rest
                (matches @ [(master, final_score)],
                 if final_score > best_score then final_score else best_score)
         else match_loop partial_ratio token_sort_ratio norm_passenger rest (matches, best_score))"

definition match_against_master ::
  "ratio \<Rightarrow> ratio \<Rightarrow> string \<Rightarrow> master_entry list \<Rightarrow> (master_entry \<times> real) list \<times> real" where
  \<comment> \<open>a match \<open>{**master, "score": s}\<close> is the pair of the entry and its score;
      \<open>matches.sort(key=score, reverse=True)\<close> is stable\<close>
  "match_against_master partial_ratio token_sort_ratio passenger_name master_names =
     (if passenger_name = [] \<or> master_names = [] then ([], 0)
      else let norm_passenger = normalize_name passenger_name;
               (matches, best_score) =
                  match_loop partial_ratio token_sort_ratio norm_passenger master_names ([], 0)
           in (sort_key (\<lambda>m. - snd m) matches, best_score))"

section \<open>Dates (\<open>DateHelper\<close>)\<close>

text \<open>
  \<open>dateutil\<close> is not part of the repository: its parser is the parameter \<open>dparse\<close>,
  \<open>None\<close> when it raises.
\<close>

record datetime =
  dt_year :: nat
  dt_month :: nat
  dt_day :: nat
  dt_hour :: nat
  dt_minute :: nat

type_synonym date_parser = "string \<Rightarrow> datetime option"

definition date_ge :: "datetime \<Rightarrow> nat \<times> nat \<times> nat \<Rightarrow> bool" where
  \<comment> \<open>\<open>dt.date() >= date(y, m, d)\<close>\<close>
  "date_ge dt d = (case d of (y, m, dd) \<Rightarrow>
     dt_year dt > y \<or> (dt_year dt = y \<and> (dt_month dt > m \<or> (dt_month dt = m \<and> dt_day dt \<ge> dd))))"

definition DEPARTURE_DATE :: "nat \<times> nat \<times> nat" where
  "DEPARTURE_DATE = (2026, 2, 13)"

definition digit_char :: "nat \<Rightarrow> char" where
  "digit_char d = ''0123456789'' ! (d mod 10)"

definition two_digits :: "nat \<Rightarrow> string" where
  \<comment> \<open>a \<open>%m\<close>, \<open>%d\<close>, \<open>%y\<close>, \<open>%H\<close> or \<open>%M\<close> field of \<open>strftime\<close>\<close>
  "two_digits n = [digit_char (n div 10), digit_char n]"

definition format_mmddyy :: "date_parser \<Rightarrow> string \<Rightarrow> string" where
  "format_mmddyy dparse date_str =
     (if date_str = [] then []
      else case dparse date_str of
             Some dt \<Rightarrow> two_digits (dt_month dt) @ ''/'' @ two_digits (dt_day dt) @ ''/'' @
                        two_digits (dt_year dt mod 100)
           | None \<Rightarrow> date_str)"

definition is_departure_date :: "date_parser \<Rightarrow> string \<Rightarrow> bool" where
  "is_departure_date dparse date_str =
     (if date_str = [] then False
      else case dparse date_str of
             Some dt \<Rightarrow> date_ge dt DEPARTURE_DATE
           | None \<Rightarrow> False)"

section \<open>The two sheets (\<open>SheetManager\<close>)\<close>

text \<open>
  A sheet is the list of rows that \<open>values().get\<close> returns for a range starting at row 2:
  the row at index \<open>i\<close> is sheet row \<open>i + 2\<close>, and a row is the list of its cells up to the
  last non-empty one.
\<close>

type_synonym row = "string list"
type_synonym sheet = "row list"

definition cell :: "row \<Rightarrow> nat \<Rightarrow> string" where
  \<comment> \<open>\<open>row[i] if len(row) > i else ""\<close>\<close>
  "cell r i = (if length r > i then r ! i else [])"

definition read_master_names :: "sheet \<Rightarrow> master_entry list" where
  \<comment> \<open>the argument is \<open>Master!A2:D\<close>\<close>
  "read_master_names rows =
     map (\<lambda>(i, r). \<lparr>m_raw = strip (r ! 0), m_norm = normalize_name (strip (r ! 0)), m_row_no = i,
                     m_place = cell r 2, m_venue = cell r 3\<rparr>)
       (filter (\<lambda>(i, r). r \<noteq> [] \<and> strip (r ! 0) \<noteq> []) (enumerate 2 rows))"

record ticket =
  t_row_no :: nat
  t_journey_date :: string
  t_departure_time :: string
  t_arrival_date :: string
  t_arrival_time :: string
  t_mode :: string
  t_seat :: string
  t_details :: string
  t_name :: string
  t_train_number :: string
  t_train_name :: string
  t_status :: string
  t_pnr :: string
  t_source :: string
  t_suggested :: string
  t_score :: string
  t_approved :: string
  t_commit_status :: string

definition ticket_of_row :: "nat \<Rightarrow> row \<Rightarrow> ticket" where
  "ticket_of_row idx r =
     \<lparr>t_row_no = idx, t_journey_date = cell r 0, t_departure_time = cell r 1,
      t_arrival_date = cell r 2, t_arrival_time = cell r 3, t_mode = cell r 4, t_seat = cell r 5,
      t_details = cell r 6, t_name = cell r 7, t_train_number = cell r 8, t_train_name = cell r 9,
      t_status = cell r 10, t_pnr = cell r 11, t_source = cell r 12, t_suggested = cell r 13,
      t_score = cell r 14, t_approved = cell r 15, t_commit_status = cell r 16\<rparr>"

definition read_ticket_sheet :: "sheet \<Rightarrow> ticket list" where
  \<comment> \<open>the argument is the ticket sheet's \<open>A2:Q\<close>\<close>
  "read_ticket_sheet rows =
     map (\<lambda>(idx, r). ticket_of_row idx r)
       (filter (\<lambda>(idx, r). \<not> length r < 8) (enumerate 2 rows))"

definition pad :: "nat \<Rightarrow> 'a \<Rightarrow> 'a list \<Rightarrow> 'a list" where
  "pad n d xs = xs @ replicate (n - length xs) d"

definition write_row :: "nat \<Rightarrow> string list \<Rightarrow> row \<Rightarrow> row" where
  \<comment> \<open>a row after its cells from column index \<open>col\<close> on are set to \<open>vals\<close>\<close>
  "write_row col vals r =
     (let r' = pad (col + length vals) [] r
      in take col r' @ vals @ drop (col + length vals) r')"

definition write_cells :: "nat \<Rightarrow> nat \<Rightarrow> string list \<Rightarrow> sheet \<Rightarrow> sheet" where
  \<comment> \<open>\<open>values().update\<close> of the cells of sheet row \<open>row_no\<close> from column index \<open>col\<close> on;
      the header row is outside the sheet as modelled\<close>
  "write_cells row_no col vals sh =
     (if row_no < 2 then sh
      else let i = row_no - 2;
               sh' = pad (Suc i) [] sh
           in sh'[i := write_row col vals (sh' ! i)])"

definition write_match_result ::
  "(real \<Rightarrow> string) \<Rightarrow> nat \<Rightarrow> string \<Rightarrow> real \<Rightarrow> sheet \<Rightarrow> sheet" where
  \<comment> \<open>columns N and O; \<open>show_score\<close> is how the sheet returns the number written\<close>
  "write_match_result show_score row_no suggested_name score sh =
     write_cells row_no 13 [suggested_name, show_score score] sh"

definition write_approved_name :: "nat \<Rightarrow> string \<Rightarrow> sheet \<Rightarrow> sheet" where
  \<comment> \<open>column P\<close>
  "write_approved_name row_no approved_name sh = write_cells row_no 15 [approved_name] sh"

definition batch_update_commit_status :: "(nat \<times> string) list \<Rightarrow> sheet \<Rightarrow> sheet" where
  \<comment> \<open>column Q of each listed row\<close>
  "batch_update_commit_status row_updates sh =
     fold (\<lambda>(row_no, status) sh. write_cells row_no 16 [status] sh) row_updates sh"

section \<open>The reconciliation workflow (\<open>VerificationWorkflow\<close>)\<close>

definition step1_suggestion ::
  "ratio \<Rightarrow> ratio \<Rightarrow> master_entry list \<Rightarrow> ticket \<Rightarrow> (string \<times> real) option" where
  \<comment> \<open>the body of the loop of \<open>step1_match_and_suggest\<close>: the arguments of
      \<open>write_match_result\<close>, or \<open>None\<close> where the row is passed over by \<open>continue\<close>\<close>
  "step1_suggestion partial_ratio token_sort_ratio master_names t =
     (if t_commit_status t = ''COMMITTED'' then None
      else if t_mode t = ''ERROR'' then None
      else if t_name t = [] then None
      else let (matches, best_score) =
                 match_against_master partial_ratio token_sort_ratio (t_name t) master_names
           in if length matches > 1 then
                (if length matches \<ge> 2 \<and> snd (matches ! 0) - snd (matches ! 1) \<le> 3
                 then Some (''DUPLICATE: '' @ m_raw (fst (matches ! 0)), best_score)
                 else Some (m_raw (fst (matches ! 0)), best_score))
              else if length matches = 1 then Some (m_raw (fst (matches ! 0)), best_score)
              else Some ([], best_score))"

definition step1_match_and_suggest ::
  "ratio \<Rightarrow> ratio \<Rightarrow> (real \<Rightarrow> string) \<Rightarrow> sheet \<Rightarrow> sheet \<Rightarrow> sheet" where
  \<comment> \<open>from the Master rows and the ticket sheet to the ticket sheet after the step\<close>
  "step1_match_and_suggest partial_ratio token_sort_ratio show_score master_rows sh =
     (let master_names = read_master_names master_rows;
          tickets = read_ticket_sheet sh
      in fold (\<lambda>t sh.
            case step1_suggestion partial_ratio token_sort_ratio master_names t of
              None \<Rightarrow> sh
            | Some (suggested_name, score) \<Rightarrow>
                write_match_result show_score (t_row_no t) suggested_name score sh)
          tickets sh)"

definition autofill :: "ticket \<Rightarrow> sheet \<Rightarrow> sheet" where
  \<comment> \<open>the body of the loop of phase 1 of \<open>step2_autofill_and_commit\<close>\<close>
  "autofill t sh =
     (if t_mode t = ''ERROR'' then sh
      else if contains ''DUPLICATE'' (t_suggested t) then sh
      else if t_approved t = [] \<and> t_suggested t \<noteq> []
           then write_approved_name (t_row_no t) (t_suggested t) sh
           else sh)"

text \<open>A write to the Master sheet: column letters, row number, value.\<close>

type_synonym master_update = "string \<times> nat \<times> string"

datatype trip = DEPARTURE | ARRIVAL

definition route :: "date_parser \<Rightarrow> ticket \<Rightarrow> trip" where
  "route dparse t = (if is_departure_date dparse (t_journey_date t) then DEPARTURE else ARRIVAL)"

definition master_writes :: "date_parser \<Rightarrow> ticket \<Rightarrow> nat \<Rightarrow> master_update list" where
  \<comment> \<open>the routing of phase 2: the six writes for a ticket matched to Master row
      \<open>master_row\<close>\<close>
  "master_writes dparse t master_row =
     (if is_departure_date dparse (t_journey_date t) then
        (let date_to_write = t_journey_date t;
             formatted_date = format_mmddyy dparse date_to_write;
             time_value = (if t_departure_time t \<noteq> [] then t_departure_time t
                           else t_arrival_time t)
         in [(''AE'', master_row, formatted_date),
             (''AF'', master_row, t_mode t),
             (''AG'', master_row, t_seat t),
             (''AH'', master_row, t_train_number t),
             (''AI'', master_row, t_train_name t),
             (''AJ'', master_row, time_value)])
      else
        (let date_to_write = (if t_mode t = ''FLIGHT'' then t_journey_date t
                              else t_arrival_date t);
             formatted_date = format_mmddyy dparse date_to_write;
             time_value = (if t_arrival_time t \<noteq> [] then t_arrival_time t
                           else t_departure_time t)
         in [(''I'', master_row, formatted_date),
             (''J'', master_row, t_mode t),
             (''K'', master_row, t_seat t),
             (''L'', master_row, t_train_number t),
             (''M'', master_row, t_train_name t),
             (''N'', master_row, time_value)]))"

definition find_exact :: "master_entry list \<Rightarrow> string \<Rightarrow> master_entry option" where
  \<comment> \<open>the first entry with \<open>m["raw"].upper() == approved_name.upper()\<close>\<close>
  "find_exact master_names approved_name =
     find (\<lambda>m. upper (m_raw m) = upper approved_name) master_names"

definition commit ::
  "date_parser \<Rightarrow> master_entry list \<Rightarrow> ticket \<Rightarrow>
   master_update list \<times> (nat \<times> string) list \<Rightarrow> master_update list \<times> (nat \<times> string) list" where
  \<comment> \<open>the body of the loop of phase 2; the state is \<open>(master_updates, status_updates)\<close>\<close>
  "commit dparse master_names t acc =
     (case acc of (master_updates, status_updates) \<Rightarrow>
        if t_approved t = [] \<or> t_mode t = ''ERROR'' then acc
        else if t_commit_status t = ''COMMITTED'' then acc
        else case find_exact master_names (t_approved t) of
               None \<Rightarrow> (master_updates,
                         status_updates @
                           [(t_row_no t, ''ERROR: '' @ [CHR 0x27] @ t_approved t @ [CHR 0x27] @
                                         '' not found'')])
             | Some match \<Rightarrow>
                 (master_updates @ master_writes dparse t (m_row_no match),
                  status_updates @ [(t_row_no t, ''COMMITTED'')]))"

definition step2_autofill_and_commit ::
  "date_parser \<Rightarrow> sheet \<Rightarrow> sheet \<Rightarrow> sheet \<times> master_update list" where
  \<comment> \<open>from the Master rows and the ticket sheet to the ticket sheet after the step and the
      writes sent to the Master sheet by \<open>batch_update_master\<close>\<close>
  "step2_autofill_and_commit dparse master_rows sh =
     (let master_names = read_master_names master_rows;
          tickets = read_ticket_sheet sh;
          sh1 = fold autofill tickets sh;
          tickets = read_ticket_sheet sh1;
          (master_updates, status_updates) = fold (commit dparse master_names) tickets ([], [])
      in (batch_update_commit_status status_updates sh1, master_updates))"

section \<open>More of Python's string methods\<close>

fun replace :: "string \<Rightarrow> string \<Rightarrow> string \<Rightarrow> string" where
  \<comment> \<open>\<open>s.replace(old, new)\<close> for a non-empty \<open>old\<close>\<close>
  "replace old new [] = []"
| "replace old new (c # cs) =
     (if old \<noteq> [] \<and> startswith (c # cs) old
      then new @ replace old new (drop (length old - 1) cs)
      else c # replace old new cs)"

definition is_linebreak :: "char \<Rightarrow> bool" where
  \<comment> \<open>the ASCII line boundaries of \<open>str.splitlines\<close>\<close>
  "is_linebreak c = one_of [CHR 0x0A, CHR 0x0D, CHR 0x0B, CHR 0x0C, CHR 0x1C, CHR 0x1D, CHR 0x1E] c"

fun splitlines_from :: "string \<Rightarrow> string \<Rightarrow> string list" where
  \<comment> \<open>the first argument is the current line, reversed\<close>
  "splitlines_from cur [] = (if cur = [] then [] else [rev cur])"
| "splitlines_from cur (c # cs) =
     (if c = CHR 0x0D \<and> cs \<noteq> [] \<and> hd cs = CHR 0x0A then rev cur # splitlines_from [] (tl cs)
      else if is_linebreak c then rev cur # splitlines_from [] cs
      else splitlines_from (c # cur) cs)"

definition splitlines :: "string \<Rightarrow> string list" where
  "splitlines s = splitlines_from [] s"

fun split_from :: "string \<Rightarrow> string \<Rightarrow> string list" where
  \<comment> \<open>the first argument is the current word, reversed\<close>
  "split_from cur [] = (if cur = [] then [] else [rev cur])"
| "split_from cur (c # cs) =
     (if is_space c then (if cur = [] then split_from [] cs else rev cur # split_from [] cs)
      else split_from (c # cur) cs)"

definition split :: "string \<Rightarrow> string list" where
  \<comment> \<open>\<open>s.split()\<close>\<close>
  "split s = split_from [] s"

fun join :: "string \<Rightarrow> string list \<Rightarrow> string" where
  \<comment> \<open>\<open>sep.join(parts)\<close>\<close>
  "join sep [] = []"
| "join sep [p] = p"
| "join sep (p # ps) = p @ sep @ join sep ps"

fun title_from :: "bool \<Rightarrow> string \<Rightarrow> string" where
  \<comment> \<open>the flag says whether the character before is a letter\<close>
  "title_from prev_cased [] = []"
| "title_from prev_cased (c # cs) =
     (if is_lower c then (if prev_cased then c else upper_char c) # title_from True cs
      else if is_upper c then (if prev_cased then lower_char c else c) # title_from True cs
      else c # title_from False cs)"

definition title :: "string \<Rightarrow> string" where
  \<comment> \<open>\<open>s.title()\<close>\<close>
  "title s = title_from False s"

fun decimal_from :: "nat \<Rightarrow> nat \<Rightarrow> string \<Rightarrow> string" where
  \<comment> \<open>the digits of a number, with fuel at least the number of its digits\<close>
  "decimal_from 0 n acc = acc"
| "decimal_from (Suc fuel) n acc =
     (if n < 10 then digit_char n # acc
      else decimal_from fuel (n div 10) (digit_char (n mod 10) # acc))"

definition decimal :: "nat \<Rightarrow> string" where
  \<comment> \<open>\<open>str(n)\<close>\<close>
  "decimal n = decimal_from (Suc n) n []"

definition digit_value :: "char \<Rightarrow> nat" where
  "digit_value c = (case map_of (zip ''0123456789'' [0, 1, 2, 3, 4, 5, 6, 7, 8, 9]) c of
                      Some d \<Rightarrow> d | None \<Rightarrow> 0)"

definition int_of :: "string \<Rightarrow> nat" where
  \<comment> \<open>\<open>int(s)\<close> for a text of digits\<close>
  "int_of s = fold (\<lambda>c n. 10 * n + digit_value c) s 0"

section \<open>Ticket classification and the booking reference (\<open>PNRExtractor\<close>)\<close>

definition non_ticket_words :: "string list" where
  "non_ticket_words =
     [''invoice'', ''bill'', ''receipt'', ''buyer'', ''seller'', ''gstin'', ''tea store'']"

definition ticket_words :: "string list" where
  "ticket_words = [''pnr'', ''train no'', ''passenger'', ''booking'']"

definition flight_kw :: "string list" where
  "flight_kw = [''indigo'', ''6e'', ''flight'', ''terminal'', ''check-in'', ''boarding pass'',
                ''cleartrip'', ''makemytrip'', ''booking confirmed'']"

definition train_kw :: "string list" where
  "train_kw = [''irctc'', ''electronic reservation'', ''train no'', ''coach'', ''berth'',
               ''quota'', ''vananchal'', ''kriya yoga'', ''vande bharat'', ''booking id : tk'',
               ''pnr :'', ''passenger status'', ''current status'']"

definition detect_ticket_type :: "string \<Rightarrow> string" where
  "detect_ticket_type text =
     (let t = lower text in
      if py_any (\<lambda>word. contains word t) non_ticket_words \<and>
         \<not> py_any (\<lambda>word. contains word t) ticket_words
      then ''UNKNOWN''
      else
        let flight_score = sum_list [1 :: nat. kw \<leftarrow> flight_kw, contains kw t];
            train_score = sum_list [1 :: nat. kw \<leftarrow> train_kw, contains kw t]
        in if flight_score > train_score \<and> flight_score \<ge> 2 then ''FLIGHT''
           else if train_score > 0 then ''TRAIN''
           else ''UNKNOWN'')"

definition spaced_pnr_rx :: rx where
  \<comment> \<open>\<open>(?:\d\s+){9}\d\<close>\<close>
  "spaced_pnr_rx = Seq (rx_rep 9 (Seq (Chr is_digit) (rx_plus (Chr is_space)))) (Chr is_digit)"

fun first_of_length_10 :: "string list \<Rightarrow> string option" where
  \<comment> \<open>the loop of \<open>extract_spaced_pnr\<close> over the matches\<close>
  "first_of_length_10 [] = None"
| "first_of_length_10 (s # spaced) =
     (let pnr = re_sub spaces_rx [] s
      in if length pnr = 10 then Some pnr else first_of_length_10 spaced)"

definition extract_spaced_pnr :: "string \<Rightarrow> string option" where
  "extract_spaced_pnr text =
     first_of_length_10 (map (\<lambda>m. group_str m 0) (re_findall spaced_pnr_rx text))"

definition labelled_pnr_rx :: rx where
  \<comment> \<open>\<open>PNR[:=\s]*([A-Z0-9]{6,10})\b\<close> under IGNORECASE\<close>
  "labelled_pnr_rx = rx_seq [rx_lit_ic ''PNR'',
     Star (Chr (\<lambda>c. c = CHR '':'' \<or> c = CHR ''='' \<or> is_space c)),
     Grp 1 (rx_range 6 10 (Chr (ic (\<lambda>c. is_upper c \<or> is_digit c)))),
     Bnd]"

definition bare_pnr_rx :: rx where
  \<comment> \<open>\<open>\b\d{10}\b\<close>\<close>
  "bare_pnr_rx = rx_seq [Bnd, rx_rep 10 (Chr is_digit), Bnd]"

definition non_pnr_prefixes :: "string list" where
  "non_pnr_prefixes = [''201'', ''202'', ''203'', ''982'', ''100'']"

definition bare_candidates :: "string \<Rightarrow> string list" where
  \<comment> \<open>the two assignments to \<open>candidates\<close>\<close>
  "bare_candidates text =
     filter (\<lambda>c. \<not> py_any (startswith c) non_pnr_prefixes)
       (map (\<lambda>m. group_str m 0) (re_findall bare_pnr_rx text))"

definition extract_pnr_from_text :: "string \<Rightarrow> string option" where
  "extract_pnr_from_text text =
     (let pnr = extract_spaced_pnr text in
      if pnr \<noteq> None \<and> pnr \<noteq> Some [] then pnr
      else case re_search labelled_pnr_rx text of
             Some m \<Rightarrow> Some (upper (group_str m 1))
           | None \<Rightarrow> (case bare_candidates text of
                         c # _ \<Rightarrow> Some c
                       | [] \<Rightarrow> None))"

section \<open>Passenger names (\<open>PNRExtractor\<close>)\<close>

text \<open>Shorthands for the classes of the patterns.\<close>

definition digit :: rx where "digit = Chr is_digit"
definition space :: rx where "space = Chr is_space"
definition chr :: "char \<Rightarrow> rx" where "chr x = Chr (\<lambda>c. c = x)"
definition chr_ic :: "char \<Rightarrow> rx" where "chr_ic x = Chr (ic (\<lambda>c. c = x))"

definition BLOCKLIST :: "string list" where
  "BLOCKLIST = [''CHECK TIMINGS'', ''PASSENGER DETAILS'', ''ELECTRONIC RESERVATION'',
     ''BOOKED FROM'', ''BOARDING AT'', ''TRANSACTION ID'', ''ACRONYMS'',
     ''NAME'', ''AGE'', ''GENDER'', ''BOOKING STATUS'', ''CURRENT STATUS'',
     ''PASSENGER STATUS'', ''COACH'', ''SEAT'', ''BERTH'', ''CHART NOT PREPARED'',
     ''CATERING SERVICE'']"

definition capitalised_rx :: rx where
  \<comment> \<open>\<open>[A-Z][a-z]+\<close>\<close>
  "capitalised_rx = Seq (Chr is_upper) (rx_plus (Chr is_lower))"

definition clean_ocr_name :: "string \<Rightarrow> string" where
  \<comment> \<open>\<open>_clean_ocr_name\<close>\<close>
  "clean_ocr_name raw_name =
     (let name = strip raw_name;
          name = replace ''|'' ''I'' (replace ''!'' ''I'' name);
          name = re_sub spaces_rx '' '' name
      in if re_search digit name \<noteq> None \<or> length name < 3 then []
         else if py_any (\<lambda>bad. contains bad (upper name))
                   [''CONFIRMED'', ''AVAILABLE'', ''BOOKING'', ''STATUS'', ''PASSENGER'', ''OPTION'']
         then []
         else if \<not> contains '' '' name \<and> length name > 8 then
           (let parts = map (\<lambda>m. group_str m 0) (re_findall capitalised_rx name)
            in if length parts \<ge> 2 then join '' '' parts else title name)
         else title name)"

definition irctc_row_rx :: rx where
  \<comment> \<open>\<open>^\d+\.\s+([A-Z!|I][A-Z!\s|I]+?)\s+(\d{1,3})\s+([MFmf|I])\s+[\|\s]*(CNF|WL|RAC|VEG)\<close>
      under IGNORECASE\<close>
  "irctc_row_rx = rx_seq [Bos, rx_plus digit, chr CHR ''.'', rx_plus space,
     Grp 1 (Seq (Chr (ic (\<lambda>c. is_upper c \<or> c = CHR ''!'' \<or> c = CHR ''|'')))
                (rx_lazy_plus
                   (Chr (ic (\<lambda>c. is_upper c \<or> c = CHR ''!'' \<or> is_space c \<or> c = CHR ''|''))))),
     rx_plus space, Grp 2 (rx_range 1 3 digit), rx_plus space,
     Grp 3 (Chr (ic (one_of ''MFmf|I''))), rx_plus space,
     Star (Chr (\<lambda>c. c = CHR ''|'' \<or> is_space c)),
     Grp 4 (rx_alt (map rx_lit_ic [''CNF'', ''WL'', ''RAC'', ''VEG'']))]"

definition ixigo_row_rx :: rx where
  \<comment> \<open>\<open>^\d+\.\s+([A-Z][A-Za-z\s]+?),\s*(\d{1,3})\s*,\s*([MF])\s*$\<close> under IGNORECASE\<close>
  "ixigo_row_rx = rx_seq [Bos, rx_plus digit, chr CHR ''.'', rx_plus space,
     Grp 1 (Seq (Chr (ic is_upper))
                (rx_lazy_plus (Chr (ic (\<lambda>c. is_upper c \<or> is_lower c \<or> is_space c))))),
     chr CHR '','', Star space, Grp 2 (rx_range 1 3 digit), Star space, chr CHR '','',
     Star space, Grp 3 (Chr (ic (one_of ''MF''))), Star space, Eos]"

definition bare_name_rx :: rx where
  \<comment> \<open>\<open>^[A-Z][A-Z\s]{3,40}$\<close>\<close>
  "bare_name_rx = rx_seq [Bos, Chr is_upper,
     rx_range 3 40 (Chr (\<lambda>c. is_upper c \<or> is_space c)), Eos]"

definition add_name :: "string \<Rightarrow> string list \<Rightarrow> string list" where
  \<comment> \<open>\<open>if raw_name and raw_name not in names: names.append(raw_name)\<close>\<close>
  "add_name raw_name names =
     (if raw_name \<noteq> [] \<and> raw_name \<notin> set names then names @ [raw_name] else names)"

definition train_passenger_line :: "string \<Rightarrow> string list \<Rightarrow> string list" where
  \<comment> \<open>the body of the loop of \<open>extract_train_passengers\<close> over the lines\<close>
  "train_passenger_line line names =
     (if py_any (\<lambda>b. contains b (upper line)) BLOCKLIST then names
      else if length line < 4 then names
      else case re_search irctc_row_rx line of
             Some m \<Rightarrow> add_name (clean_ocr_name (group_str m 1)) names
           | None \<Rightarrow>
               (case re_search ixigo_row_rx line of
                  Some m2 \<Rightarrow> add_name (clean_ocr_name (group_str m2 1)) names
                | None \<Rightarrow>
                    if re_match bare_name_rx line \<noteq> None then
                      (let words = split line
                       in if length words \<ge> 1 \<and> list_all (\<lambda>w. length w \<ge> 2) words
                          then add_name (clean_ocr_name line) names
                          else names)
                    else names))"

definition extract_train_passengers :: "string \<Rightarrow> string list" where
  "extract_train_passengers text =
     (let lines = [re_sub spaces_rx '' '' (strip l). l \<leftarrow> splitlines text, strip l \<noteq> []]
      in fold train_passenger_line lines [])"

record passenger =
  p_name :: string
  p_coach :: string
  p_seat :: string
  p_berth :: string
  p_status :: string

definition flight_passenger :: "string \<Rightarrow> passenger" where
  \<comment> \<open>\<open>{'name': name, 'seat': ''}\<close>; the keys a dictionary lacks are empty\<close>
  "flight_passenger name = \<lparr>p_name = name, p_coach = [], p_seat = [], p_berth = [], p_status = []\<rparr>"

definition is_valid_flight_name :: "string \<Rightarrow> bool" where
  \<comment> \<open>\<open>_is_valid_flight_name\<close>\<close>
  "is_valid_flight_name name =
     (let name_upper = upper name
      in if py_any (\<lambda>bad. contains bad name_upper)
              [''ALLOWED'', ''ITEMS'', ''BAGGAGE'', ''BOOKING'', ''DETAILS'', ''PAYMENT'',
               ''TICKET'', ''FLIGHT'', ''TERMINAL'', ''CHECK'', ''INFORMATION'', ''IMPORTANT'',
               ''CONTACT'', ''CUSTOMER'', ''SUPPORT'', ''YATRA'', ''DIGI'', ''AVOID'']
         then False
         else if \<not> contains '' '' name then False
         else if length name < 5 \<or> length name > 40 then False
         else if re_search digit name \<noteq> None then False
         else True)"

definition adult_name_rx :: rx where
  \<comment> \<open>\<open>\b(M[rs]s?\.?\s+[A-Z][A-Z\s]+?)\s*\(ADULT\)\<close> under IGNORECASE\<close>
  "adult_name_rx = rx_seq [Bnd,
     Grp 1 (rx_seq [chr_ic CHR ''M'', Chr (ic (one_of ''rs'')), rx_opt (chr_ic CHR ''s''),
                    rx_opt (chr CHR ''.''), rx_plus space, Chr (ic is_upper),
                    rx_lazy_plus (Chr (ic (\<lambda>c. is_upper c \<or> is_space c)))]),
     Star space, rx_lit_ic ''(ADULT)'']"

definition titled_name_rx :: rx where
  \<comment> \<open>\<open>\b(M[rs]\.?\s+[A-Z][a-z]+\s+[A-Z][a-z]+)\b\<close> under IGNORECASE\<close>
  "titled_name_rx = rx_seq [Bnd,
     Grp 1 (rx_seq [chr_ic CHR ''M'', Chr (ic (one_of ''rs'')), rx_opt (chr CHR ''.''),
                    rx_plus space, Chr (ic is_upper), rx_plus (Chr (ic is_lower)),
                    rx_plus space, Chr (ic is_upper), rx_plus (Chr (ic is_lower))]),
     Bnd]"

definition flight_passenger_match :: "string \<Rightarrow> passenger list \<Rightarrow> passenger list" where
  \<comment> \<open>the body of the inner loop of \<open>extract_flight_passengers\<close>\<close>
  "flight_passenger_match match passengers =
     (let name = re_sub spaces_rx '' '' (strip match);
          name = replace ''Mrs.'' ''Mrs'' (replace ''Ms.'' ''Ms'' (replace ''Mr.'' ''Mr'' name))
      in if is_valid_flight_name name then
           (if \<not> py_any (\<lambda>p. upper (p_name p) = upper name) passengers
            then passengers @ [flight_passenger name] else passengers)
         else passengers)"

definition extract_flight_passengers :: "string \<Rightarrow> passenger list" where
  "extract_flight_passengers text =
     fold (\<lambda>pattern passengers.
             fold flight_passenger_match
               (map (\<lambda>m. group_str m 1) (re_findall pattern text)) passengers)
       [adult_name_rx, titled_name_rx] []"

section \<open>Flight details (\<open>FlightExtractor\<close>)\<close>

datatype py_error =
    AttributeError   \<comment> \<open>\<open>'NoneType' object has no attribute 'groups'\<close>\<close>
  | OtherError string

fun str_of_error :: "py_error \<Rightarrow> string" where
  "str_of_error AttributeError =
     [CHR 0x27] @ ''NoneType'' @ [CHR 0x27] @ '' object has no attribute '' @
     [CHR 0x27] @ ''groups'' @ [CHR 0x27]"
| "str_of_error (OtherError msg) = msg"

record flight_data =
  f_airline :: string
  f_flight_number :: string
  f_pnr :: string
  f_route :: string
  f_date :: string
  f_departure_time :: string
  f_arrival_time :: string
  f_passengers :: "passenger list"

definition airlines :: "(string \<times> string) list" where
  "airlines = [(''indigo'', ''IndiGo''), (''6e'', ''IndiGo''),
               (''air india express'', ''Air India Express''), (''air india'', ''Air India''),
               (''vistara'', ''Vistara''), (''spicejet'', ''SpiceJet'')]"

definition find_airline :: "string \<Rightarrow> string" where
  \<comment> \<open>the loop over \<open>airlines.items()\<close>\<close>
  "find_airline t_lower =
     (case find (\<lambda>(key, airline). contains key t_lower) airlines of
        Some (key, airline) \<Rightarrow> airline | None \<Rightarrow> [])"

definition flight_code_rx :: rx where
  \<comment> \<open>\<open>\b(IX|I5|AI|6E|UK|SG|QP)\s*[-\s]*(\d{3,4})\b\<close> under IGNORECASE\<close>
  "flight_code_rx = rx_seq [Bnd,
     Grp 1 (rx_alt (map rx_lit_ic [''IX'', ''I5'', ''AI'', ''6E'', ''UK'', ''SG'', ''QP''])),
     Star space, Star (Chr (\<lambda>c. c = CHR ''-'' \<or> is_space c)),
     Grp 2 (rx_range 3 4 digit), Bnd]"

definition flight_label_rx :: rx where
  \<comment> \<open>\<open>Flight\s+(?:No\.?|Number)?\s*[:=\s]*([A-Z0-9]{2,3}[-\s]?\d{3,4})\<close> under IGNORECASE\<close>
  "flight_label_rx = rx_seq [rx_lit_ic ''Flight'', rx_plus space,
     rx_opt (Alt (Seq (rx_lit_ic ''No'') (rx_opt (chr CHR ''.''))) (rx_lit_ic ''Number'')),
     Star space, Star (Chr (\<lambda>c. c = CHR '':'' \<or> c = CHR ''='' \<or> is_space c)),
     Grp 1 (rx_seq [rx_range 2 3 (Chr (ic (\<lambda>c. is_upper c \<or> is_digit c))),
                    rx_opt (Chr (\<lambda>c. c = CHR ''-'' \<or> is_space c)), rx_range 3 4 digit])]"

definition flight_number_of ::
  "(rx \<times> nat) list \<Rightarrow> string \<Rightarrow> py_error + string" where
  \<comment> \<open>the loop over the two patterns, each with the number of its groups: the body ends in
      \<open>break\<close>, so only the first pattern is searched, and \<open>m.groups()\<close> raises when the
      search found nothing\<close>
  "flight_number_of patterns text =
     (case patterns of
        [] \<Rightarrow> Inr []
      | (pattern, groups) # rest \<Rightarrow>
          (case re_search pattern text of
             None \<Rightarrow> Inl AttributeError
           | Some m \<Rightarrow>
               if groups = 2 then Inr (group_str m 1 @ '' '' @ group_str m 2)
               else Inr (re_sub spaces_rx '' '' (group_str m 1))))"

definition flight_pnr_rx :: rx where
  \<comment> \<open>\<open>PNR[:=\s]*([A-Z0-9]{6})\b\<close> under IGNORECASE\<close>
  "flight_pnr_rx = rx_seq [rx_lit_ic ''PNR'',
     Star (Chr (\<lambda>c. c = CHR '':'' \<or> c = CHR ''='' \<or> is_space c)),
     Grp 1 (rx_rep 6 (Chr (ic (\<lambda>c. is_upper c \<or> is_digit c)))), Bnd]"

text \<open>The arrow and the dash of the route pattern, outside ASCII, stand as their UTF-8 bytes.\<close>

definition ARROW :: string where
  "ARROW = [CHR 0xE2, CHR 0x86, CHR 0x92]"

definition EN_DASH :: string where
  "EN_DASH = [CHR 0xE2, CHR 0x80, CHR 0x93]"

definition city_rx :: rx where
  \<comment> \<open>\<open>[A-Z][a-z]+(?:\s+[A-Z][a-z]+)?\<close>\<close>
  "city_rx = rx_seq [Chr is_upper, rx_plus (Chr is_lower),
     rx_opt (rx_seq [rx_plus space, Chr is_upper, rx_plus (Chr is_lower)])]"

definition route_rx :: rx where
  \<comment> \<open>two cities with a hyphen, an arrow or a dash between them\<close>
  "route_rx = rx_seq [Grp 1 city_rx, Star space,
     rx_alt [chr CHR ''-'', rx_lit ARROW, rx_lit EN_DASH], Star space, Grp 2 city_rx]"

definition months :: "string list" where
  "months = [''Jan'', ''Feb'', ''Mar'', ''Apr'', ''May'', ''Jun'', ''Jul'', ''Aug'', ''Sep'',
             ''Oct'', ''Nov'', ''Dec'']"

definition textual_date_rx :: rx where
  \<comment> \<open>\<open>\b(\d{1,2})\s+(Jan|Feb|...|Dec)[a-z]*\s+[,QUOTE]?(\d{2,4})\b\<close> under IGNORECASE,
      QUOTE being the apostrophe\<close>
  "textual_date_rx = rx_seq [Bnd, Grp 1 (rx_range 1 2 digit), rx_plus space,
     Grp 2 (rx_alt (map rx_lit_ic months)), Star (Chr (ic is_lower)), rx_plus space,
     rx_opt (Chr (\<lambda>c. c = CHR '','' \<or> c = CHR 0x27)), Grp 3 (rx_range 2 4 digit), Bnd]"

definition weekday_date_rx :: rx where
  \<comment> \<open>\<open>\b(Mon|Tue|...|Sun)[a-z]*,?\s+(\d{1,2})\s+(Jan|Feb|...|Dec)[a-z]*\s+(\d{4})\b\<close>
      under IGNORECASE\<close>
  "weekday_date_rx = rx_seq [Bnd,
     Grp 1 (rx_alt (map rx_lit_ic [''Mon'', ''Tue'', ''Wed'', ''Thu'', ''Fri'', ''Sat'', ''Sun''])),
     Star (Chr (ic is_lower)), rx_opt (chr CHR '',''), rx_plus space,
     Grp 2 (rx_range 1 2 digit), rx_plus space, Grp 3 (rx_alt (map rx_lit_ic months)),
     Star (Chr (ic is_lower)), rx_plus space, Grp 4 (rx_rep 4 digit), Bnd]"

definition numeric_date_rx :: rx where
  \<comment> \<open>\<open>\b(\d{1,2})[/-](\d{1,2})[/-](\d{2,4})\b\<close> under IGNORECASE\<close>
  "numeric_date_rx = rx_seq [Bnd, Grp 1 (rx_range 1 2 digit),
     Chr (\<lambda>c. c = CHR ''/'' \<or> c = CHR ''-''), Grp 2 (rx_range 1 2 digit),
     Chr (\<lambda>c. c = CHR ''/'' \<or> c = CHR ''-''), Grp 3 (rx_range 2 4 digit), Bnd]"

definition date_patterns :: "rx list" where
  "date_patterns = [textual_date_rx, weekday_date_rx, numeric_date_rx]"

fun first_date :: "rx list \<Rightarrow> string \<Rightarrow> string" where
  \<comment> \<open>the loop over \<open>date_patterns\<close>\<close>
  "first_date [] text = []"
| "first_date (pattern # rest) text =
     (case re_search pattern text of Some m \<Rightarrow> group_str m 0 | None \<Rightarrow> first_date rest text)"

definition time_rx :: rx where
  \<comment> \<open>\<open>\b(\d{1,2}:\d{2})\s*(?:hrs|HRS)?\b\<close>\<close>
  "time_rx = rx_seq [Bnd, Grp 1 (rx_seq [rx_range 1 2 digit, chr CHR '':'', rx_rep 2 digit]),
     Star space, rx_opt (Alt (rx_lit ''hrs'') (rx_lit ''HRS'')), Bnd]"

definition extract_flight_details :: "string \<Rightarrow> py_error + flight_data" where
  "extract_flight_details text =
     (let airline = find_airline (lower text)
      in case flight_number_of [(flight_code_rx, 2), (flight_label_rx, 1)] text of
           Inl e \<Rightarrow> Inl e
         | Inr flight_number \<Rightarrow>
             (let pnr = (case re_search flight_pnr_rx text of
                           Some m \<Rightarrow> upper (group_str m 1) | None \<Rightarrow> []);
                  route = (case re_search route_rx text of
                             Some m \<Rightarrow> group_str m 1 @ '' '' @ ARROW @ '' '' @ group_str m 2
                           | None \<Rightarrow> []);
                  date = first_date date_patterns text;
                  times = map (\<lambda>m. group_str m 1) (re_findall time_rx text)
              in Inr \<lparr>f_airline = airline, f_flight_number = flight_number, f_pnr = pnr,
                      f_route = route, f_date = date,
                      f_departure_time = (if length times \<ge> 2 then times ! 0 else []),
                      f_arrival_time = (if length times \<ge> 2 then times ! 1 else []),
                      f_passengers = extract_flight_passengers text\<rparr>))"

section \<open>The PNR lookup (\<open>TrainPNRAPI\<close>)\<close>

text \<open>
  The lookup service is not part of the repository: \<open>check_train_pnr\<close> is the parameter
  \<open>lookup\<close>, \<open>None\<close> when the request fails, the status is not 200 or the payload is empty.
  A payload is a record of the keys the code reads; a passenger entry is a dictionary.
\<close>

type_synonym api_passenger = "(string \<times> string) list"

record api_data =
  d_pnrNumber :: string
  d_trainNumber :: string
  d_trainName :: string
  d_dateOfJourney :: string
  d_arrivalDate :: string
  d_passengerList :: "api_passenger list"

record api_response =
  r_success :: bool
  r_data :: "api_data option"

type_synonym pnr_lookup = "string \<Rightarrow> api_response option"

definition dict_get :: "(string \<times> string) list \<Rightarrow> string \<Rightarrow> string \<Rightarrow> string" where
  \<comment> \<open>\<open>p.get(key, default)\<close>\<close>
  "dict_get p key dflt = (case map_of p key of Some v \<Rightarrow> v | None \<Rightarrow> dflt)"

text \<open>
  A record of the pipeline: the dictionary that \<open>process_ticket\<close> returns, a key that a
  dictionary lacks being empty (the readers of the dictionary use \<open>get\<close> with that default)
  and \<open>td_error\<close> being \<open>None\<close> where the key is absent or None.
\<close>

record ticket_data =
  td_mode :: string
  td_error :: "string option"
  td_filename :: string
  td_pnr :: string
  td_passengers :: "passenger list"
  td_details :: string
  td_airline :: string
  td_flight_number :: string
  td_route :: string
  td_date :: string
  td_train_number :: string
  td_train_name :: string
  td_journey_date :: string
  td_departure_time :: string
  td_arrival_date :: string
  td_arrival_time :: string

definition blank_record :: ticket_data where
  "blank_record = \<lparr>td_mode = [], td_error = None, td_filename = [], td_pnr = [],
     td_passengers = [], td_details = [], td_airline = [], td_flight_number = [], td_route = [],
     td_date = [], td_train_number = [], td_train_name = [], td_journey_date = [],
     td_departure_time = [], td_arrival_date = [], td_arrival_time = []\<rparr>"

definition clock_rx :: rx where
  \<comment> \<open>\<open>(\d{1,2}):(\d{2})(?::(\d{2}))?\s*(AM|PM)?\<close>\<close>
  "clock_rx = rx_seq [Grp 1 (rx_range 1 2 digit), chr CHR '':'', Grp 2 (rx_rep 2 digit),
     rx_opt (Seq (chr CHR '':'') (Grp 3 (rx_rep 2 digit))), Star space,
     rx_opt (Grp 4 (Alt (rx_lit ''AM'') (rx_lit ''PM'')))]"

definition clock_time :: "string \<Rightarrow> string" where
  \<comment> \<open>the time found by hand when the parser raises: \<open>f"{hour:02d}:{minute}"\<close>\<close>
  "clock_time s =
     (case re_search clock_rx s of
        None \<Rightarrow> []
      | Some time_match \<Rightarrow>
          (let hour = int_of (group_str time_match 1);
               minute = group_str time_match 2;
               ampm = group time_match 4;
               hour = (if ampm = Some ''PM'' \<and> hour \<noteq> 12 then hour + 12
                       else if ampm = Some ''AM'' \<and> hour = 12 then 0
                       else hour)
           in (if hour < 10 then ''0'' @ decimal hour else decimal hour) @ '':'' @ minute))"

definition date_and_time :: "date_parser \<Rightarrow> string \<Rightarrow> string \<times> string" where
  \<comment> \<open>the date and the time read from \<open>dateOfJourney\<close>, and in the same way from
      \<open>arrivalDate\<close>: \<open>%Y-%m-%d\<close> and \<open>%H:%M\<close> of the parsed value\<close>
  "date_and_time dparse s =
     (if s = [] then ([], [])
      else case dparse s of
             Some dt \<Rightarrow> (decimal (dt_year dt) @ ''-'' @ two_digits (dt_month dt) @ ''-'' @
                           two_digits (dt_day dt),
                         two_digits (dt_hour dt) @ '':'' @ two_digits (dt_minute dt))
           | None \<Rightarrow> (s, clock_time s))"

definition train_passenger :: "string list \<Rightarrow> nat \<times> api_passenger \<Rightarrow> passenger" where
  \<comment> \<open>the body of the loop over \<open>enumerate(passenger_list)\<close>\<close>
  "train_passenger passenger_names ip =
     (case ip of (idx, p) \<Rightarrow>
        \<lparr>p_name = (if passenger_names \<noteq> [] \<and> idx < length passenger_names
                    then passenger_names ! idx else ''Passenger '' @ decimal (idx + 1)),
         p_coach = dict_get p ''currentCoachId'' (dict_get p ''bookingCoachId'' []),
         p_seat = dict_get p ''currentBerthNo'' (dict_get p ''bookingBerthNo'' ''0''),
         p_berth = dict_get p ''currentBerthCode'' (dict_get p ''bookingBerthCode'' []),
         p_status = dict_get p ''currentStatusDetails'' []\<rparr>)"

definition parse_train_response ::
  "date_parser \<Rightarrow> api_response \<Rightarrow> string list \<Rightarrow> ticket_data" where
  "parse_train_response dparse response passenger_names =
     (if \<not> r_success response then
        blank_record\<lparr>td_pnr := ''UNKNOWN'', td_mode := ''TRAIN'', td_error := Some ''API failed''\<rparr>
      else case r_data response of
             None \<Rightarrow>
               blank_record\<lparr>td_pnr := ''UNKNOWN'', td_mode := ''TRAIN'', td_error := Some ''No data''\<rparr>
           | Some data \<Rightarrow>
               (let (journey_date, departure_time) = date_and_time dparse (d_dateOfJourney data);
                    (arrival_date, arrival_time) = date_and_time dparse (d_arrivalDate data);
                    passengers = map (train_passenger passenger_names)
                                   (enumerate 0 (d_passengerList data))
                in blank_record\<lparr>td_pnr := d_pnrNumber data, td_mode := ''TRAIN'',
                     td_train_number := d_trainNumber data, td_train_name := d_trainName data,
                     td_journey_date := journey_date, td_departure_time := departure_time,
                     td_arrival_date := arrival_date, td_arrival_time := arrival_time,
                     td_passengers := passengers,
                     td_details := d_trainNumber data @ '' / '' @ d_trainName data,
                     td_error := None\<rparr>))"

section \<open>Processing a ticket (\<open>TicketProcessor\<close>)\<close>

definition error_record :: "string \<Rightarrow> string \<Rightarrow> ticket_data" where
  \<comment> \<open>\<open>{'error': msg, 'filename': filename, 'mode': 'ERROR'}\<close>\<close>
  "error_record msg filename =
     blank_record\<lparr>td_error := Some msg, td_filename := filename, td_mode := ''ERROR''\<rparr>"

definition process_flight :: "string \<Rightarrow> string \<Rightarrow> py_error + ticket_data" where
  "process_flight text filename =
     (case extract_flight_details text of
        Inl e \<Rightarrow> Inl e
      | Inr flight_data \<Rightarrow>
          if f_passengers flight_data = [] then
            Inr (error_record ''No passengers found in flight ticket'' filename)
          else
            Inr (blank_record\<lparr>td_mode := ''FLIGHT'', td_airline := f_airline flight_data,
                   td_flight_number := f_flight_number flight_data, td_pnr := f_pnr flight_data,
                   td_route := f_route flight_data, td_date := f_date flight_data,
                   td_departure_time := f_departure_time flight_data,
                   td_arrival_time := f_arrival_time flight_data,
                   td_passengers := f_passengers flight_data,
                   td_details := f_airline flight_data @ '' '' @ f_flight_number flight_data,
                   td_filename := filename, td_error := None\<rparr>))"

definition process_train ::
  "pnr_lookup \<Rightarrow> date_parser \<Rightarrow> string \<Rightarrow> string \<Rightarrow> ticket_data" where
  "process_train lookup dparse text filename =
     (case extract_pnr_from_text text of
        None \<Rightarrow> error_record ''PNR not found in ticket'' filename
      | Some pnr \<Rightarrow>
          if pnr = [] then error_record ''PNR not found in ticket'' filename
          else case lookup pnr of
                 None \<Rightarrow> (error_record (''API failed for PNR '' @ pnr) filename)\<lparr>td_pnr := pnr\<rparr>
               | Some api_response \<Rightarrow>
                   (let passenger_names = extract_train_passengers text;
                        result = parse_train_response dparse api_response passenger_names
                    in result\<lparr>td_filename := filename\<rparr>))"

definition process_ticket ::
  "('b \<Rightarrow> string \<Rightarrow> string \<Rightarrow> py_error + string) \<Rightarrow> pnr_lookup \<Rightarrow> date_parser \<Rightarrow>
   'b \<Rightarrow> string \<Rightarrow> string \<Rightarrow> ticket_data" where
  \<comment> \<open>\<open>ocr\<close> is the conversion of the file to text (\<open>file_to_images\<close>, then
      \<open>ocr_images_full\<close>), which may raise; every exception raised in the body becomes a record\<close>
  "process_ticket ocr lookup dparse file_bytes filename mime_type =
     (case ocr file_bytes mime_type filename of
        Inl e \<Rightarrow> error_record (''Processing failed: '' @ str_of_error e) filename
      | Inr full_text \<Rightarrow>
          (let ticket_type = detect_ticket_type full_text
           in if ticket_type = ''FLIGHT'' then
                (case process_flight full_text filename of
                   Inl e \<Rightarrow> error_record (''Processing failed: '' @ str_of_error e) filename
                 | Inr result \<Rightarrow> result)
              else if ticket_type = ''TRAIN'' then process_train lookup dparse full_text filename
              else error_record ''Unknown ticket type (not a valid train/flight ticket)'' filename))"

section \<open>What the second step does to one row\<close>

text \<open>
  Auxiliary notions for the proofs about the sheets: the effect of the two phases of
  \<open>step2_autofill_and_commit\<close> on a single row of the ticket sheet.
\<close>

definition autofill_row :: "row \<Rightarrow> row" where
  "autofill_row r =
     (if cell r 4 = ''ERROR'' then r
      else if contains ''DUPLICATE'' (cell r 13) then r
      else if cell r 15 = [] \<and> cell r 13 \<noteq> [] then write_row 15 [cell r 13] r
      else r)"

definition commit_outcome ::
  "date_parser \<Rightarrow> master_entry list \<Rightarrow> ticket \<Rightarrow> master_update list \<times> string option" where
  \<comment> \<open>the Master writes and the commit status that phase 2 produces for a ticket\<close>
  "commit_outcome dparse master_names t =
     (if t_approved t = [] \<or> t_mode t = ''ERROR'' then ([], None)
      else if t_commit_status t = ''COMMITTED'' then ([], None)
      else case find_exact master_names (t_approved t) of
             None \<Rightarrow> ([], Some (''ERROR: '' @ [CHR 0x27] @ t_approved t @ [CHR 0x27] @
                                  '' not found''))
           | Some match \<Rightarrow> (master_writes dparse t (m_row_no match), Some ''COMMITTED''))"

definition commit_row :: "date_parser \<Rightarrow> master_entry list \<Rightarrow> row \<Rightarrow> row" where
  "commit_row dparse master_names r =
     (case snd (commit_outcome dparse master_names (ticket_of_row 0 r)) of
        None \<Rightarrow> r
      | Some status \<Rightarrow> write_row 16 [status] r)"

section \<open>Whitespace in a normalized name\<close>

text \<open>
  Auxiliary notions for the proofs about \<open>normalize_name\<close>: what the substitution of
  \<open>\s+\<close> by one blank computes, and the texts it leaves alone.
\<close>

function squeeze :: "string \<Rightarrow> string" where
  "squeeze [] = []"
| "squeeze (c # cs) =
     (if is_space c then CHR '' '' # squeeze (dropWhile is_space cs) else c # squeeze cs)"
  by pat_completeness auto
termination
  by (relation "measure length") (auto simp add: length_dropWhile_le less_Suc_eq_le)

fun single_spaced :: "string \<Rightarrow> bool" where
  "single_spaced [] = True"
| "single_spaced [c] = (is_space c \<longrightarrow> c = CHR '' '')"
| "single_spaced (c # d # cs) =
     ((is_space c \<longrightarrow> c = CHR '' '' \<and> \<not> is_space d) \<and> single_spaced (d # cs))"

section \<open>Patterns that consume a character\<close>

text \<open>
  An auxiliary notion for the proofs about substitutions: a pattern of this shape matches no
  empty text.
\<close>

fun rx_consumes :: "rx \<Rightarrow> bool" where
  "rx_consumes (Chr P) = True"
| "rx_consumes Eps = False"
| "rx_consumes (Seq a b) = (rx_consumes a \<or> rx_consumes b)"
| "rx_consumes (Alt a b) = (rx_consumes a \<and> rx_consumes b)"
| "rx_consumes (Star a) = False"
| "rx_consumes (LazyStar a) = False"
| "rx_consumes Bnd = False"
| "rx_consumes Bos = False"
| "rx_consumes Eos = False"
| "rx_consumes (Grp n a) = rx_consumes a"

section \<open>Example data\<close>

definition iso_dates :: date_parser where
  \<comment> \<open>what \<open>dateutil\<close> returns on two ISO dates; it raises on the text \<open>n/a\<close>\<close>
  "iso_dates s =
     (if s = ''2026-02-20'' then Some \<lparr>dt_year = 2026, dt_month = 2, dt_day = 20, dt_hour = 0, dt_minute = 0\<rparr>
      else if s = ''2026-02-10'' then Some \<lparr>dt_year = 2026, dt_month = 2, dt_day = 10, dt_hour = 0, dt_minute = 0\<rparr>
      else if s = ''2026-02-11'' then Some \<lparr>dt_year = 2026, dt_month = 2, dt_day = 11, dt_hour = 0, dt_minute = 0\<rparr>
      else None)"

definition guest_rahul :: master_entry where
  "guest_rahul = \<lparr>m_raw = ''Rahul Sharma'', m_norm = ''RAHUL SHARMA'', m_row_no = 5,
                   m_place = ''Pune'', m_venue = ''Hall A''\<rparr>"

definition ticket_out :: ticket where
  \<comment> \<open>a train ticket of 20 February 2026\<close>
  "ticket_out = \<lparr>t_row_no = 2, t_journey_date = ''2026-02-20'', t_departure_time = ''16:25'',
     t_arrival_date = ''2026-02-21'', t_arrival_time = '''', t_mode = ''TRAIN'', t_seat = ''B1/12/LB'',
     t_details = ''12345 / Express'', t_name = ''Mr Rahul Sharma'', t_train_number = ''12345'',
     t_train_name = ''Express'', t_status = ''CNF'', t_pnr = ''6562526496'', t_source = ''a.pdf'',
     t_suggested = ''Rahul Sharma'', t_score = ''100'', t_approved = ''rahul sharma'',
     t_commit_status = ''''\<rparr>"

definition ticket_in :: ticket where
  \<comment> \<open>a train ticket of 10 February 2026, arriving on the 11th\<close>
  "ticket_in = ticket_out\<lparr>t_row_no := 3, t_journey_date := ''2026-02-10'',
     t_arrival_date := ''2026-02-11'', t_arrival_time := ''06:10''\<rparr>"

definition ticket_undated :: ticket where
  \<comment> \<open>a train ticket whose journey date does not parse\<close>
  "ticket_undated = ticket_in\<lparr>t_row_no := 4, t_journey_date := ''n/a''\<rparr>"




definition partial_scores :: ratio where
  \<comment> \<open>partial similarities of the four guests to a query for Rahul Sharma\<close>
  "partial_scores a b =
     (if b = ''RAHUL SHARMA'' then 92 else if b = ''RAHUL S'' then 90
      else if b = ''R SHARMA'' then 86 else 40)"

definition token_scores :: ratio where
  "token_scores a b = (if b = ''RAHUL SHARMA'' then 88 else 30)"

definition master_ex :: sheet where
  \<comment> \<open>\<open>Master!A2:D\<close> with one guest, in sheet row 2\<close>
  "master_ex = [[''Rahul Sharma'', '''', ''Pune'', ''Hall A'']]"

definition sheet_ex :: sheet where
  \<comment> \<open>a ticket sheet: a suggested row, a stray note of one cell and a committed row\<close>
  "sheet_ex =
     [[''2026-02-20'', ''16:25'', ''2026-02-21'', '''', ''TRAIN'', ''B1/12/LB'', ''12345 / Express'',
       ''Mr Rahul Sharma'', ''12345'', ''Express'', ''CNF'', ''6562526496'', ''a.pdf'',
       ''Rahul Sharma'', ''92''],
      [''checked by hand''],
      [''2026-02-10'', '''', ''2026-02-11'', ''06:10'', ''TRAIN'', ''B1/12/LB'', ''12345 / Express'',
       ''Mr Rahul Sharma'', ''12345'', ''Express'', ''CNF'', ''6562526496'', ''b.pdf'',
       ''Rahul S'', ''90'', ''Rahul Sharma'', ''COMMITTED'']]"

definition score_text :: "real \<Rightarrow> string" where
  \<comment> \<open>how the sheet returns the scores of the examples\<close>
  "score_text s = (if s = 92 then ''92'' else if s = 0 then ''0'' else ''?'')"

definition ticket_committed :: ticket where
  "ticket_committed = ticket_in\<lparr>t_commit_status := ''COMMITTED''\<rparr>"

definition flight_text_no_number :: string where
  \<comment> \<open>a flight transcript with a passenger and no flight number\<close>
  "flight_text_no_number = ''IndiGo flight, Terminal 2. Passenger: Mr Rahul Sharma''"


definition train_text_no_names :: string where
  \<comment> \<open>a train transcript with a PNR and no line that gives a name\<close>
  "train_text_no_names = ''PNR: 4512345678 Coach B1 Berth 12''"


definition lookup_empty :: pnr_lookup where
  \<comment> \<open>a lookup that succeeds with an empty passenger list\<close>
  "lookup_empty pnr =
     Some \<lparr>r_success = True,
           r_data = Some \<lparr>d_pnrNumber = pnr, d_trainNumber = ''12345'', d_trainName = ''Express'',
                            d_dateOfJourney = [], d_arrivalDate = [], d_passengerList = []\<rparr>\<rparr>"

definition ocr_gives :: "string \<Rightarrow> unit \<Rightarrow> string \<Rightarrow> string \<Rightarrow> py_error + string" where
  \<comment> \<open>an OCR that reads the given text\<close>
  "ocr_gives text file_bytes mime_type filename = Inr text"



section \<open>Routing of a commit by the journey date\<close>

lemma commit_matched:
  assumes "t_approved t \<noteq> []" and "t_mode t \<noteq> ''ERROR''"
    and "t_commit_status t \<noteq> ''COMMITTED''"
    and "find_exact master_names (t_approved t) = Some m"
  shows "commit dparse master_names t (mu, su) =
           (mu @ master_writes dparse t (m_row_no m), su @ [(t_row_no t, ''COMMITTED'')])"
  using assms by (simp add: commit_def)

text \<open>
  C3. A row that is committed with a matched registry entry \<open>m\<close> is routed by its journey
  date. When the journey date parses to a date on or after 2026-02-13, the route is DEPARTURE:
  the journey date (as MM/DD/YY), mode, seat, vehicle number, vehicle name and the departure
  time, or the arrival time when the departure time is empty, go to columns AE..AJ of the
  registry row. When it parses to an earlier date, the route is ARRIVAL: the journey date for
  FLIGHT and the arrival date for TRAIN, then mode, seat, vehicle number, vehicle name and the
  arrival time, or the departure time when the arrival time is empty, go to columns I..N.
\<close>

theorem commit_routes_by_cutoff:
  assumes "t_approved t \<noteq> []" and "t_mode t \<noteq> ''ERROR''"
    and "t_commit_status t \<noteq> ''COMMITTED''"
    and "find_exact master_names (t_approved t) = Some m"
    and "t_journey_date t \<noteq> []"
    and "dparse (t_journey_date t) = Some dt"
  shows "(date_ge dt (2026, 2, 13) \<longrightarrow>
            route dparse t = DEPARTURE \<and>
            commit dparse master_names t (mu, su) =
              (mu @ [(''AE'', m_row_no m, format_mmddyy dparse (t_journey_date t)),
                     (''AF'', m_row_no m, t_mode t),
                     (''AG'', m_row_no m, t_seat t),
                     (''AH'', m_row_no m, t_train_number t),
                     (''AI'', m_row_no m, t_train_name t),
                     (''AJ'', m_row_no m,
                        if t_departure_time t = [] then t_arrival_time t else t_departure_time t)],
               su @ [(t_row_no t, ''COMMITTED'')]))
       \<and> (\<not> date_ge dt (2026, 2, 13) \<longrightarrow>
            route dparse t = ARRIVAL \<and>
            (\<exists>date_to_write.
               (t_mode t = ''FLIGHT'' \<longrightarrow> date_to_write = t_journey_date t) \<and>
               (t_mode t = ''TRAIN'' \<longrightarrow> date_to_write = t_arrival_date t) \<and>
               commit dparse master_names t (mu, su) =
                 (mu @ [(''I'', m_row_no m, format_mmddyy dparse date_to_write),
                        (''J'', m_row_no m, t_mode t),
                        (''K'', m_row_no m, t_seat t),
                        (''L'', m_row_no m, t_train_number t),
                        (''M'', m_row_no m, t_train_name t),
                        (''N'', m_row_no m,
                           if t_arrival_time t = [] then t_departure_time t else t_arrival_time t)],
                  su @ [(t_row_no t, ''COMMITTED'')])))"
proof (intro conjI impI)
  assume ge: "date_ge dt (2026, 2, 13)"
  then have dep: "is_departure_date dparse (t_journey_date t)"
    using assms(5,6) by (simp add: is_departure_date_def DEPARTURE_DATE_def)
  then show "route dparse t = DEPARTURE" by (simp add: route_def)
  show "commit dparse master_names t (mu, su) =
              (mu @ [(''AE'', m_row_no m, format_mmddyy dparse (t_journey_date t)),
                     (''AF'', m_row_no m, t_mode t),
                     (''AG'', m_row_no m, t_seat t),
                     (''AH'', m_row_no m, t_train_number t),
                     (''AI'', m_row_no m, t_train_name t),
                     (''AJ'', m_row_no m,
                        if t_departure_time t = [] then t_arrival_time t else t_departure_time t)],
               su @ [(t_row_no t, ''COMMITTED'')])"
    using dep commit_matched [OF assms(1-4)] by (simp add: master_writes_def)
next
  assume lt: "\<not> date_ge dt (2026, 2, 13)"
  then have arr: "\<not> is_departure_date dparse (t_journey_date t)"
    using assms(5,6) by (simp add: is_departure_date_def DEPARTURE_DATE_def)
  then show "route dparse t = ARRIVAL" by (simp add: route_def)
  show "\<exists>date_to_write.
               (t_mode t = ''FLIGHT'' \<longrightarrow> date_to_write = t_journey_date t) \<and>
               (t_mode t = ''TRAIN'' \<longrightarrow> date_to_write = t_arrival_date t) \<and>
               commit dparse master_names t (mu, su) =
                 (mu @ [(''I'', m_row_no m, format_mmddyy dparse date_to_write),
                        (''J'', m_row_no m, t_mode t),
                        (''K'', m_row_no m, t_seat t),
                        (''L'', m_row_no m, t_train_number t),
                        (''M'', m_row_no m, t_train_name t),
                        (''N'', m_row_no m,
                           if t_arrival_time t = [] then t_departure_time t else t_arrival_time t)],
                  su @ [(t_row_no t, ''COMMITTED'')])"
    using arr commit_matched [OF assms(1-4)]
    by (intro exI [of _ "if t_mode t = ''FLIGHT'' then t_journey_date t else t_arrival_date t"])
       (simp add: master_writes_def)
qed

theorem commit_routes_by_cutoff_witness:
  "find_exact [guest_rahul] (t_approved ticket_out) = Some guest_rahul \<and>
   iso_dates (t_journey_date ticket_out) =
     Some \<lparr>dt_year = 2026, dt_month = 2, dt_day = 20, dt_hour = 0, dt_minute = 0\<rparr> \<and>
   route iso_dates ticket_out = DEPARTURE \<and>
   commit iso_dates [guest_rahul] ticket_out ([], []) =
     ([(''AE'', 5, ''02/20/26''), (''AF'', 5, ''TRAIN''), (''AG'', 5, ''B1/12/LB''),
       (''AH'', 5, ''12345''), (''AI'', 5, ''Express''), (''AJ'', 5, ''16:25'')],
      [(2, ''COMMITTED'')]) \<and>
   iso_dates (t_journey_date ticket_in) =
     Some \<lparr>dt_year = 2026, dt_month = 2, dt_day = 10, dt_hour = 0, dt_minute = 0\<rparr> \<and>
   route iso_dates ticket_in = ARRIVAL \<and>
   commit iso_dates [guest_rahul] ticket_in ([], []) =
     ([(''I'', 5, ''02/11/26''), (''J'', 5, ''TRAIN''), (''K'', 5, ''B1/12/LB''),
       (''L'', 5, ''12345''), (''M'', 5, ''Express''), (''N'', 5, ''06:10'')],
      [(3, ''COMMITTED'')])"
proof -
  have o1: "t_approved ticket_out \<noteq> []" by code_simp
  have o2: "t_mode ticket_out \<noteq> ''ERROR''" by code_simp
  have o3: "t_commit_status ticket_out \<noteq> ''COMMITTED''" by code_simp
  have o4: "find_exact [guest_rahul] (t_approved ticket_out) = Some guest_rahul" by code_simp
  have o5: "t_journey_date ticket_out \<noteq> []" by code_simp
  have o6: "iso_dates (t_journey_date ticket_out) =
               Some \<lparr>dt_year = 2026, dt_month = 2, dt_day = 20, dt_hour = 0, dt_minute = 0\<rparr>" by code_simp
  have o7: "date_ge \<lparr>dt_year = 2026, dt_month = 2, dt_day = 20, dt_hour = 0, dt_minute = 0\<rparr>
               (2026, 2, 13)" by code_simp
  have i1: "t_approved ticket_in \<noteq> []" by code_simp
  have i2: "t_mode ticket_in \<noteq> ''ERROR''" by code_simp
  have i3: "t_commit_status ticket_in \<noteq> ''COMMITTED''" by code_simp
  have i4: "find_exact [guest_rahul] (t_approved ticket_in) = Some guest_rahul" by code_simp
  have i5: "t_journey_date ticket_in \<noteq> []" by code_simp
  have i6: "iso_dates (t_journey_date ticket_in) =
               Some \<lparr>dt_year = 2026, dt_month = 2, dt_day = 10, dt_hour = 0, dt_minute = 0\<rparr>" by code_simp
  have i7: "\<not> date_ge \<lparr>dt_year = 2026, dt_month = 2, dt_day = 10, dt_hour = 0, dt_minute = 0\<rparr>
               (2026, 2, 13)" by code_simp
  have i8: "t_mode ticket_in = ''TRAIN''" by code_simp
  have e1: "format_mmddyy iso_dates (t_journey_date ticket_out) = ''02/20/26''" by code_simp
  have e2: "format_mmddyy iso_dates (t_arrival_date ticket_in) = ''02/11/26''" by code_simp
  have e3: "m_row_no guest_rahul = 5" by code_simp
  have e4: "t_mode ticket_out = ''TRAIN''" by code_simp
  have e5: "t_seat ticket_out = ''B1/12/LB''" by code_simp
  have e6: "t_train_number ticket_out = ''12345''" by code_simp
  have e7: "t_train_name ticket_out = ''Express''" by code_simp
  have e8: "t_departure_time ticket_out = ''16:25''" by code_simp
  have e9: "t_row_no ticket_out = 2" by code_simp
  have e10: "t_seat ticket_in = ''B1/12/LB''" by code_simp
  have e11: "t_train_number ticket_in = ''12345''" by code_simp
  have e12: "t_train_name ticket_in = ''Express''" by code_simp
  have e13: "t_arrival_time ticket_in = ''06:10''" by code_simp
  have e14: "t_row_no ticket_in = 3" by code_simp
  note ev = e1 e2 e3 e4 e5 e6 e7 e8 e9 e10 e11 e12 e13 e14
  have dep: "route iso_dates ticket_out = DEPARTURE \<and>
      commit iso_dates [guest_rahul] ticket_out ([], []) =
     ([(''AE'', 5, ''02/20/26''), (''AF'', 5, ''TRAIN''), (''AG'', 5, ''B1/12/LB''),
       (''AH'', 5, ''12345''), (''AI'', 5, ''Express''), (''AJ'', 5, ''16:25'')],
      [(2, ''COMMITTED'')])"
    using commit_routes_by_cutoff [where dparse = iso_dates and mu = "[]" and su = "[]", OF o1 o2 o3 o4 o5 o6] o7 by (simp add: ev)
  have arr: "route iso_dates ticket_in = ARRIVAL \<and>
      commit iso_dates [guest_rahul] ticket_in ([], []) =
     ([(''I'', 5, ''02/11/26''), (''J'', 5, ''TRAIN''), (''K'', 5, ''B1/12/LB''),
       (''L'', 5, ''12345''), (''M'', 5, ''Express''), (''N'', 5, ''06:10'')],
      [(3, ''COMMITTED'')])"
    using commit_routes_by_cutoff [where dparse = iso_dates and mu = "[]" and su = "[]", OF i1 i2 i3 i4 i5 i6] i7 by (auto simp add: ev i8)
  show ?thesis using dep arr o4 o6 i6 by simp
qed

section \<open>A journey date that is empty or does not parse\<close>

text \<open>
  C9. When the journey date of a row is empty or does not parse, \<open>is_departure_date\<close> is
  False: the route is ARRIVAL, and a commit of the row with a matched registry entry writes
  columns I..N of the registry row and none of AE..AJ.
\<close>

theorem unparsed_journey_date_routes_arrival:
  assumes "t_journey_date t = [] \<or> dparse (t_journey_date t) = None"
  shows "\<not> is_departure_date dparse (t_journey_date t) \<and>
         route dparse t = ARRIVAL \<and>
         map fst (master_writes dparse t master_row) = [''I'', ''J'', ''K'', ''L'', ''M'', ''N''] \<and>
         (t_approved t \<noteq> [] \<and> t_mode t \<noteq> ''ERROR'' \<and> t_commit_status t \<noteq> ''COMMITTED'' \<and>
          find_exact master_names (t_approved t) = Some m \<longrightarrow>
            map fst (fst (commit dparse master_names t ([], []))) =
              [''I'', ''J'', ''K'', ''L'', ''M'', ''N''])"
proof -
  have nd: "\<not> is_departure_date dparse (t_journey_date t)"
    using assms by (auto simp add: is_departure_date_def)
  then have w: "map fst (master_writes dparse t r) = [''I'', ''J'', ''K'', ''L'', ''M'', ''N'']" for r
    by (simp add: master_writes_def)
  from nd have "route dparse t = ARRIVAL" by (simp add: route_def)
  moreover have "map fst (fst (commit dparse master_names t ([], []))) =
              [''I'', ''J'', ''K'', ''L'', ''M'', ''N'']"
    if "t_approved t \<noteq> []" "t_mode t \<noteq> ''ERROR''" "t_commit_status t \<noteq> ''COMMITTED''"
       "find_exact master_names (t_approved t) = Some m"
    using that w by (simp add: commit_def)
  ultimately show ?thesis using nd w by blast
qed

theorem unparsed_journey_date_routes_arrival_witness:
  "iso_dates (t_journey_date ticket_undated) = None \<and>
   route iso_dates ticket_undated = ARRIVAL \<and>
   map fst (fst (commit iso_dates [guest_rahul] ticket_undated ([], []))) =
     [''I'', ''J'', ''K'', ''L'', ''M'', ''N'']"
proof -
  have h: "iso_dates (t_journey_date ticket_undated) = None" by code_simp
  have c1: "t_approved ticket_undated \<noteq> []" by code_simp
  have c2: "t_mode ticket_undated \<noteq> ''ERROR''" by code_simp
  have c3: "t_commit_status ticket_undated \<noteq> ''COMMITTED''" by code_simp
  have c4: "find_exact [guest_rahul] (t_approved ticket_undated) = Some guest_rahul" by code_simp
  note c = c1 c2 c3 c4
  show ?thesis
    using unparsed_journey_date_routes_arrival
            [where t = ticket_undated and dparse = iso_dates and master_row = 0
               and master_names = "[guest_rahul]" and m = guest_rahul, OF disjI2 [OF h]] h c
    by blast
qed

section \<open>Fuzzy matching and the resolution of a suggestion\<close>






section \<open>The workflow row by row\<close>

lemma write_cells_at:
  "write_cells (Suc (Suc (length pre))) col vals (pre @ r # post) =
     pre @ write_row col vals r # post"
  by (simp add: write_cells_def pad_def Let_def nth_append list_update_append)

lemma fold_rows:
  assumes "\<And>pre r post. Q r \<Longrightarrow>
             F (T (Suc (Suc (length pre))) r) (pre @ r # post) = pre @ h r # post"
  shows "fold F (map (\<lambda>(i, r). T i r)
                  (filter (\<lambda>(i, r). Q r) (enumerate (Suc (Suc (length pre))) rows)))
           (pre @ rows) = pre @ map (\<lambda>r. if Q r then h r else r) rows"
proof (induction rows arbitrary: pre)
  case Nil
  then show ?case by simp
next
  case (Cons r rows)
  show ?case
  proof (cases "Q r")
    case True
    then show ?thesis
      using Cons.IH [of "pre @ [h r]"] assms [of r pre rows] by simp
  next
    case False
    then show ?thesis
      using Cons.IH [of "pre @ [r]"] by simp
  qed
qed

lemma fold_rows_sheet:
  assumes "\<And>pre r post. Q r \<Longrightarrow>
             F (T (Suc (Suc (length pre))) r) (pre @ r # post) = pre @ h r # post"
  shows "fold F (map (\<lambda>(i, r). T i r) (filter (\<lambda>(i, r). Q r) (enumerate 2 sh))) sh =
           map (\<lambda>r. if Q r then h r else r) sh"
  using fold_rows [of Q F T h "[]" sh] assms by (simp add: numeral_2_eq_2)

lemma step1_suggestion_row_no:
  "step1_suggestion pr ts ms (ticket_of_row i r) = step1_suggestion pr ts ms (ticket_of_row 0 r)"
  by (simp add: step1_suggestion_def ticket_of_row_def)

lemma row_no_ticket_of_row: "t_row_no (ticket_of_row i r) = i"
  by (simp add: ticket_of_row_def)

lemma step1_rows:
  "step1_match_and_suggest pr ts show_score master_rows sh =
     map (\<lambda>r. if \<not> length r < 8 then
                 (case step1_suggestion pr ts (read_master_names master_rows) (ticket_of_row 0 r) of
                    None \<Rightarrow> r
                  | Some (n, s) \<Rightarrow> write_row 13 [n, show_score s] r)
               else r) sh"
  unfolding step1_match_and_suggest_def Let_def read_ticket_sheet_def
  by (rule fold_rows_sheet)
     (auto simp add: write_match_result_def write_cells_at row_no_ticket_of_row
        step1_suggestion_row_no [of _ _ _ "Suc (Suc _)"] split: option.splits)

lemma autofill_rows:
  "fold autofill (read_ticket_sheet sh) sh =
     map (\<lambda>r. if \<not> length r < 8 then autofill_row r else r) sh"
  unfolding read_ticket_sheet_def
  by (rule fold_rows_sheet)
     (simp add: autofill_def autofill_row_def write_approved_name_def write_cells_at
        ticket_of_row_def)

lemma commit_by_outcome:
  "commit dparse ms t (mu, su) =
     (mu @ fst (commit_outcome dparse ms t),
      su @ (case snd (commit_outcome dparse ms t) of None \<Rightarrow> [] | Some s \<Rightarrow> [(t_row_no t, s)]))"
  by (simp add: commit_def commit_outcome_def split: option.splits)

lemma fold_commit:
  "fold (commit dparse ms) tickets (mu, su) =
     (mu @ concat (map (\<lambda>t. fst (commit_outcome dparse ms t)) tickets),
      su @ concat (map (\<lambda>t. case snd (commit_outcome dparse ms t) of
                               None \<Rightarrow> [] | Some s \<Rightarrow> [(t_row_no t, s)]) tickets))"
  by (induction tickets arbitrary: mu su) (simp_all add: commit_by_outcome)

lemma fold_concat_map:
  "fold f (concat (map g xs)) s = fold (\<lambda>x. fold f (g x)) xs s"
  by (induction xs arbitrary: s) simp_all

lemma commit_outcome_row_no:
  "commit_outcome dparse ms (ticket_of_row i r) = commit_outcome dparse ms (ticket_of_row 0 r)"
  by (simp add: commit_outcome_def ticket_of_row_def master_writes_def split: option.splits)

lemma status_rows:
  "batch_update_commit_status
     (concat (map (\<lambda>t. case snd (commit_outcome dparse ms t) of
                          None \<Rightarrow> [] | Some s \<Rightarrow> [(t_row_no t, s)]) (read_ticket_sheet sh))) sh =
     map (\<lambda>r. if \<not> length r < 8 then commit_row dparse ms r else r) sh"
  unfolding batch_update_commit_status_def fold_concat_map read_ticket_sheet_def
  by (rule fold_rows_sheet)
     (simp add: commit_row_def write_cells_at row_no_ticket_of_row
        commit_outcome_row_no [of _ _ "Suc (Suc _)"] split: option.splits)

lemma master_updates_rows:
  "concat (map (\<lambda>t. fst (commit_outcome dparse ms t)) (read_ticket_sheet sh)) =
     concat (map (\<lambda>r. if \<not> length r < 8 then fst (commit_outcome dparse ms (ticket_of_row 0 r))
                       else []) sh)"
proof -
  have "concat (map (\<lambda>t. fst (commit_outcome dparse ms t))
          (map (\<lambda>(idx, r). ticket_of_row idx r)
             (filter (\<lambda>(idx, r). \<not> length r < 8) (enumerate n rows)))) =
        concat (map (\<lambda>r. if \<not> length r < 8 then fst (commit_outcome dparse ms (ticket_of_row 0 r))
                          else []) rows)" for n rows
  proof (induction rows arbitrary: n)
    case Nil
    then show ?case by simp
  next
    case (Cons r rows)
    show ?case
      using Cons.IH [of "Suc n"] commit_outcome_row_no [of dparse ms n r] by simp
  qed
  then show ?thesis by (simp add: read_ticket_sheet_def)
qed

lemma step2_rows:
  "step2_autofill_and_commit dparse master_rows sh =
     (map (\<lambda>r. if \<not> length r < 8 then commit_row dparse (read_master_names master_rows) r else r)
        (map (\<lambda>r. if \<not> length r < 8 then autofill_row r else r) sh),
      concat (map (\<lambda>r. if \<not> length r < 8
                        then fst (commit_outcome dparse (read_master_names master_rows)
                                    (ticket_of_row 0 r))
                        else [])
                (map (\<lambda>r. if \<not> length r < 8 then autofill_row r else r) sh)))"
  by (simp add: step2_autofill_and_commit_def Let_def autofill_rows fold_commit status_rows
        master_updates_rows)

lemma length_write_row: "length (write_row c vs r) = max (length r) (c + length vs)"
  by (auto simp add: write_row_def pad_def Let_def)

lemma write_row_single: "write_row c [v] r = (pad (Suc c) [] r)[c := v]"
  by (simp add: write_row_def Let_def pad_def upd_conv_take_nth_drop)

lemma cell_write_row: "cell (write_row c [v] r) j = (if j = c then v else cell r j)"
  by (auto simp add: write_row_single pad_def cell_def nth_append nth_list_update)

lemma write_row_twice: "write_row c [v] (write_row c [v] r) = write_row c [v] r"
  by (simp add: write_row_single pad_def)

lemma ticket_fields:
  "t_mode (ticket_of_row i r) = cell r 4"
  "t_suggested (ticket_of_row i r) = cell r 13"
  "t_approved (ticket_of_row i r) = cell r 15"
  "t_commit_status (ticket_of_row i r) = cell r 16"
  by (simp_all add: ticket_of_row_def)

lemma autofill_row_cells:
  "cell (autofill_row r) 4 = cell r 4"
  "cell (autofill_row r) 13 = cell r 13"
  "cell (autofill_row r) 16 = cell r 16"
  "cell (autofill_row r) 15 =
     (if cell r 4 \<noteq> ''ERROR'' \<and> \<not> contains ''DUPLICATE'' (cell r 13) \<and> cell r 15 = [] 
      then cell r 13 else cell r 15)"
  by (auto simp add: autofill_row_def cell_write_row)

lemma autofill_row_twice: "autofill_row (autofill_row r) = autofill_row r"
  by (simp add: autofill_row_def cell_write_row)

lemma commit_row_cells:
  "cell (commit_row d ms r) 4 = cell r 4"
  "cell (commit_row d ms r) 13 = cell r 13"
  "cell (commit_row d ms r) 15 = cell r 15"
  by (auto simp add: commit_row_def cell_write_row split: option.splits)

lemma autofill_commit_row: "autofill_row (commit_row d ms (autofill_row r)) = commit_row d ms (autofill_row r)"
  using autofill_row_twice[of r]
  by (auto simp add: autofill_row_def[of "commit_row d ms (autofill_row r)"] commit_row_cells autofill_row_cells split: if_splits)

lemma commit_row_status:
  "cell (commit_row d ms r) 16 =
     (case snd (commit_outcome d ms (ticket_of_row 0 r)) of None \<Rightarrow> cell r 16 | Some s \<Rightarrow> s)"
  by (auto simp add: commit_row_def cell_write_row split: option.splits)

lemma second_outcome:
  "commit_outcome d ms (ticket_of_row 0 (commit_row d ms r)) =
     ([], case snd (commit_outcome d ms (ticket_of_row 0 r)) of
            None \<Rightarrow> None | Some s \<Rightarrow> if s = ''COMMITTED'' then None else Some s)"
  unfolding commit_outcome_def [of d ms "ticket_of_row 0 (commit_row d ms r)"]
    ticket_fields commit_row_cells commit_row_status
  by (auto simp add: commit_outcome_def ticket_fields split: option.splits)

lemma commit_row_twice: "commit_row d ms (commit_row d ms r) = commit_row d ms r"
  unfolding commit_row_def [of d ms "commit_row d ms r"] second_outcome
  by (auto simp add: commit_row_def write_row_twice split: option.splits)

lemma length_autofill_row: "\<not> length r < 8 \<Longrightarrow> \<not> length (autofill_row r) < 8"
  by (simp add: autofill_row_def length_write_row)

lemma length_commit_row: "\<not> length r < 8 \<Longrightarrow> \<not> length (commit_row d ms r) < 8"
  by (simp add: commit_row_def length_write_row split: option.splits)

lemma step2_sheet:
  "fst (step2_autofill_and_commit dparse master_rows sh) =
     map (\<lambda>r. if \<not> length r < 8
               then commit_row dparse (read_master_names master_rows) (autofill_row r) else r) sh"
  by (simp add: step2_rows length_autofill_row cong: if_cong)

lemma step2_updates:
  "snd (step2_autofill_and_commit dparse master_rows sh) =
     concat (map (\<lambda>r. if \<not> length r < 8
                       then fst (commit_outcome dparse (read_master_names master_rows)
                                   (ticket_of_row 0 (autofill_row r)))
                       else []) sh)"
proof -
  have "(\<lambda>r. if \<not> length r < 8
             then fst (commit_outcome dparse (read_master_names master_rows) (ticket_of_row 0 r))
             else []) \<circ> (\<lambda>r. if \<not> length r < 8 then autofill_row r else r) =
        (\<lambda>r. if \<not> length r < 8
             then fst (commit_outcome dparse (read_master_names master_rows)
                         (ticket_of_row 0 (autofill_row r)))
             else [])"
    by (auto simp add: fun_eq_iff length_autofill_row)
  then show ?thesis by (simp add: step2_rows)
qed

lemma step2_second_run:
  "step2_autofill_and_commit dparse master_rows
     (fst (step2_autofill_and_commit dparse master_rows sh)) =
   (fst (step2_autofill_and_commit dparse master_rows sh), [])"
proof -
  let ?ms = "read_master_names master_rows"
  let ?f = "\<lambda>r. if \<not> length r < 8 then commit_row dparse ?ms (autofill_row r) else r"
  have len: "\<not> length r < 8 \<Longrightarrow> \<not> length (?f r) < 8" for r
    by (simp add: length_autofill_row length_commit_row)
  have ff: "?f (?f r) = ?f r" for r
    using len [of r] by (simp add: autofill_commit_row commit_row_twice)
  have none: "(if \<not> length (?f r) < 8
               then fst (commit_outcome dparse ?ms (ticket_of_row 0 (autofill_row (?f r))))
               else []) = []" for r
    by (simp add: autofill_commit_row second_outcome)
  have sheet: "fst (step2_autofill_and_commit dparse master_rows (map ?f sh)) = map ?f sh"
    unfolding step2_sheet [of dparse master_rows "map ?f sh"] map_map comp_def
    using ff by simp
  have upd: "snd (step2_autofill_and_commit dparse master_rows (map ?f sh)) = []"
    unfolding step2_updates [of dparse master_rows "map ?f sh"] map_map comp_def
    using none by simp
  show ?thesis
    unfolding step2_sheet [of dparse master_rows sh]
    using sheet upd by (simp add: prod_eq_iff)
qed

section \<open>Rows that are not read\<close>

lemma read_ticket_sheet_row_no:
  assumes "t \<in> set (read_ticket_sheet sh)"
  shows "2 \<le> t_row_no t \<and> t_row_no t - 2 < length sh \<and> \<not> length (sh ! (t_row_no t - 2)) < 8"
proof -
  from assms obtain p where p: "p \<in> set (enumerate 2 sh)" "\<not> length (snd p) < 8"
      "t = ticket_of_row (fst p) (snd p)"
    by (auto simp add: read_ticket_sheet_def)
  then show ?thesis
    by (auto simp add: in_set_enumerate_eq row_no_ticket_of_row)
qed

text \<open>
  C10. A row of the ticket sheet with fewer than 8 cells is not among the tickets read, and
  both steps leave it as it is: no suggestion, score, approved name or commit status is
  written to it.
\<close>

theorem short_row_untouched:
  assumes "i < length sh" and "length (sh ! i) < 8"
  shows "(\<forall>t \<in> set (read_ticket_sheet sh). t_row_no t \<noteq> i + 2) \<and>
         step1_match_and_suggest pr ts show_score master_rows sh ! i = sh ! i \<and>
         fst (step2_autofill_and_commit dparse master_rows sh) ! i = sh ! i"
proof -
  have "t_row_no t \<noteq> i + 2" if "t \<in> set (read_ticket_sheet sh)" for t
    using read_ticket_sheet_row_no [OF that] assms(2) by auto
  moreover have "step1_match_and_suggest pr ts show_score master_rows sh ! i = sh ! i"
    using assms by (simp add: step1_rows)
  moreover have "fst (step2_autofill_and_commit dparse master_rows sh) ! i = sh ! i"
    using assms by (simp add: step2_sheet)
  ultimately show ?thesis by blast
qed

theorem short_row_untouched_witness:
  "(1::nat) < length sheet_ex \<and> length (sheet_ex ! 1) < 8 \<and>
   map t_row_no (read_ticket_sheet sheet_ex) = [2, 4] \<and>
   step1_match_and_suggest partial_scores token_scores score_text master_ex sheet_ex ! 1 =
     [''checked by hand''] \<and>
   fst (step2_autofill_and_commit iso_dates master_ex sheet_ex) ! 1 = [''checked by hand'']"
proof -
  have h1: "(1::nat) < length sheet_ex" by code_simp
  have h2: "length (sheet_ex ! 1) < 8" by code_simp
  have r: "sheet_ex ! 1 = [''checked by hand'']" by code_simp
  have t: "map t_row_no (read_ticket_sheet sheet_ex) = [2, 4]" by code_simp
  show ?thesis
    using short_row_untouched [OF h1 h2, of partial_scores token_scores score_text master_ex
            iso_dates] h1 h2 t r
    by simp
qed

section \<open>A committed row is committed once\<close>

text \<open>
  C1. A row whose commit status is COMMITTED is passed over by the commit loop, whatever its
  other cells, and by the suggestion step, which leaves its row of the sheet as it is. The
  first run of the second step sends to the Master sheet the writes of each row it commits,
  row by row; a second run on the sheet that the first run left sends no write to the Master
  sheet and leaves the ticket sheet as it is.
\<close>

theorem commit_is_idempotent:
  "(t_commit_status t = ''COMMITTED'' \<longrightarrow>
      commit dparse master_names t acc = acc \<and>
      step1_suggestion pr ts master_names t = None) \<and>
   (\<forall>i < length sh. \<not> length (sh ! i) < 8 \<and> cell (sh ! i) 16 = ''COMMITTED'' \<longrightarrow>
      step1_match_and_suggest pr ts show_score master_rows sh ! i = sh ! i) \<and>
   snd (step2_autofill_and_commit dparse master_rows sh) =
     concat (map (\<lambda>r. if \<not> length r < 8
                       then fst (commit_outcome dparse (read_master_names master_rows)
                                   (ticket_of_row 0 (autofill_row r)))
                       else []) sh) \<and>
   step2_autofill_and_commit dparse master_rows
     (fst (step2_autofill_and_commit dparse master_rows sh)) =
   (fst (step2_autofill_and_commit dparse master_rows sh), [])"
proof -
  have a: "t_commit_status t = ''COMMITTED'' \<longrightarrow>
      commit dparse master_names t acc = acc \<and>
      step1_suggestion pr ts master_names t = None"
    by (cases acc) (simp add: commit_def step1_suggestion_def)
  have b: "\<forall>i < length sh. \<not> length (sh ! i) < 8 \<and> cell (sh ! i) 16 = ''COMMITTED'' \<longrightarrow>
      step1_match_and_suggest pr ts show_score master_rows sh ! i = sh ! i"
    by (simp add: step1_rows step1_suggestion_def ticket_fields)
  show ?thesis
    using a b step2_updates [of dparse master_rows sh] step2_second_run [of dparse master_rows sh]
    by blast
qed

theorem commit_is_idempotent_witness:
  "t_commit_status ticket_committed = ''COMMITTED'' \<and>
   commit iso_dates [guest_rahul] ticket_committed ([], []) = ([], []) \<and>
   step1_suggestion partial_scores token_scores [guest_rahul] ticket_committed = None \<and>
   cell (sheet_ex ! 2) 16 = ''COMMITTED'' \<and>
   step1_match_and_suggest partial_scores token_scores score_text master_ex sheet_ex ! 2 =
     sheet_ex ! 2 \<and>
   snd (step2_autofill_and_commit iso_dates master_ex sheet_ex) =
     [(''AE'', 2, ''02/20/26''), (''AF'', 2, ''TRAIN''), (''AG'', 2, ''B1/12/LB''),
      (''AH'', 2, ''12345''), (''AI'', 2, ''Express''), (''AJ'', 2, ''16:25'')] \<and>
   cell (fst (step2_autofill_and_commit iso_dates master_ex sheet_ex) ! 0) 16 = ''COMMITTED'' \<and>
   snd (step2_autofill_and_commit iso_dates master_ex
          (fst (step2_autofill_and_commit iso_dates master_ex sheet_ex))) = []"
proof -
  note inst = commit_is_idempotent [of ticket_committed iso_dates "[guest_rahul]" "([], [])"
      partial_scores token_scores sheet_ex score_text master_ex]
  have h1: "t_commit_status ticket_committed = ''COMMITTED''" by code_simp
  have h2: "(2::nat) < length sheet_ex" by code_simp
  have h3: "\<not> length (sheet_ex ! 2) < 8" by code_simp
  have h4: "cell (sheet_ex ! 2) 16 = ''COMMITTED''" by code_simp
  have e1: "snd (step2_autofill_and_commit iso_dates master_ex sheet_ex) =
     [(''AE'', 2, ''02/20/26''), (''AF'', 2, ''TRAIN''), (''AG'', 2, ''B1/12/LB''),
      (''AH'', 2, ''12345''), (''AI'', 2, ''Express''), (''AJ'', 2, ''16:25'')]" by code_simp
  have e2: "cell (fst (step2_autofill_and_commit iso_dates master_ex sheet_ex) ! 0) 16 =
              ''COMMITTED''" by code_simp
  have c1: "commit iso_dates [guest_rahul] ticket_committed ([], []) = ([], []) \<and>
      step1_suggestion partial_scores token_scores [guest_rahul] ticket_committed = None"
    using inst h1 by blast
  have c2: "step1_match_and_suggest partial_scores token_scores score_text master_ex sheet_ex ! 2 =
     sheet_ex ! 2"
    using inst h2 h3 h4 by blast
  have c3: "snd (step2_autofill_and_commit iso_dates master_ex
          (fst (step2_autofill_and_commit iso_dates master_ex sheet_ex))) = []"
    using inst by simp
  show ?thesis using h1 h4 e1 e2 c1 c2 c3 by simp
qed

section \<open>Classification of a transcript\<close>

lemma sum_list_ones: "sum_list (map (\<lambda>x. 1 :: nat) xs) = length xs"
  by (induction xs) simp_all

lemma keyword_hits:
  "sum_list [1 :: nat. kw \<leftarrow> kws, contains kw t] = length (filter (\<lambda>kw. contains kw t) kws)"
  by (induction kws) simp_all

text \<open>
  C4. With \<open>t\<close> the lowercased transcript, \<open>fs\<close> the number of flight keywords and \<open>tr\<close>
  the number of train keywords that occur in \<open>t\<close>: the result is UNKNOWN when \<open>t\<close> contains
  a non-ticket word and none of the ticket words; otherwise it is FLIGHT exactly when
  \<open>fs > tr\<close> and \<open>fs \<ge> 2\<close>, else TRAIN exactly when \<open>tr > 0\<close>, else UNKNOWN.
\<close>

theorem detect_ticket_type_rule:
  assumes "t = lower text"
    and "fs = length (filter (\<lambda>kw. contains kw t) flight_kw)"
    and "tr = length (filter (\<lambda>kw. contains kw t) train_kw)"
  shows "((\<exists>w \<in> set non_ticket_words. contains w t) \<and> (\<forall>w \<in> set ticket_words. \<not> contains w t) \<longrightarrow>
            detect_ticket_type text = ''UNKNOWN'') \<and>
         (\<not> ((\<exists>w \<in> set non_ticket_words. contains w t) \<and>
              (\<forall>w \<in> set ticket_words. \<not> contains w t)) \<longrightarrow>
            (tr < fs \<and> 2 \<le> fs \<longrightarrow> detect_ticket_type text = ''FLIGHT'') \<and>
            (\<not> (tr < fs \<and> 2 \<le> fs) \<and> 0 < tr \<longrightarrow> detect_ticket_type text = ''TRAIN'') \<and>
            (\<not> (tr < fs \<and> 2 \<le> fs) \<and> \<not> 0 < tr \<longrightarrow> detect_ticket_type text = ''UNKNOWN'') \<and>
            (detect_ticket_type text = ''FLIGHT'' \<longleftrightarrow> tr < fs \<and> 2 \<le> fs) \<and>
            (detect_ticket_type text = ''TRAIN'' \<longleftrightarrow> \<not> (tr < fs \<and> 2 \<le> fs) \<and> 0 < tr))"
  unfolding assms detect_ticket_type_def Let_def keyword_hits py_any_def list_ex_iff
  by auto

theorem detect_ticket_type_rule_witness:
  "detect_ticket_type ''PNR 4512345678 Coach B1 Berth 12'' = ''TRAIN'' \<and>
   detect_ticket_type ''Tax Invoice - Buyer: A, Seller: B'' = ''UNKNOWN'' \<and>
   detect_ticket_type ''IndiGo flight, Terminal 2'' = ''FLIGHT'' \<and>
   detect_ticket_type ''Dear guest, welcome'' = ''UNKNOWN''"
proof -
  have n1: "\<not> ((\<exists>w \<in> set non_ticket_words. contains w (lower ''PNR 4512345678 Coach B1 Berth 12'')) \<and>
                (\<forall>w \<in> set ticket_words. \<not> contains w (lower ''PNR 4512345678 Coach B1 Berth 12'')))"
    by code_simp
  have f1: "length (filter (\<lambda>kw. contains kw (lower ''PNR 4512345678 Coach B1 Berth 12'')) flight_kw) = 0"
    by code_simp
  have t1: "length (filter (\<lambda>kw. contains kw (lower ''PNR 4512345678 Coach B1 Berth 12'')) train_kw) = 2"
    by code_simp
  have a: "detect_ticket_type ''PNR 4512345678 Coach B1 Berth 12'' = ''TRAIN''"
    using detect_ticket_type_rule [OF refl refl refl, of "''PNR 4512345678 Coach B1 Berth 12''"] n1
    unfolding f1 t1 by simp
  have g2: "(\<exists>w \<in> set non_ticket_words. contains w (lower ''Tax Invoice - Buyer: A, Seller: B'')) \<and>
            (\<forall>w \<in> set ticket_words. \<not> contains w (lower ''Tax Invoice - Buyer: A, Seller: B''))"
    by code_simp
  have b: "detect_ticket_type ''Tax Invoice - Buyer: A, Seller: B'' = ''UNKNOWN''"
    using detect_ticket_type_rule [OF refl refl refl, of "''Tax Invoice - Buyer: A, Seller: B''"] g2
    by blast
  have n3: "\<not> ((\<exists>w \<in> set non_ticket_words. contains w (lower ''IndiGo flight, Terminal 2'')) \<and>
                (\<forall>w \<in> set ticket_words. \<not> contains w (lower ''IndiGo flight, Terminal 2'')))"
    by code_simp
  have f3: "length (filter (\<lambda>kw. contains kw (lower ''IndiGo flight, Terminal 2'')) flight_kw) = 3"
    by code_simp
  have t3: "length (filter (\<lambda>kw. contains kw (lower ''IndiGo flight, Terminal 2'')) train_kw) = 0"
    by code_simp
  have c: "detect_ticket_type ''IndiGo flight, Terminal 2'' = ''FLIGHT''"
    using detect_ticket_type_rule [OF refl refl refl, of "''IndiGo flight, Terminal 2''"] n3
    unfolding f3 t3 by simp
  have n4: "\<not> ((\<exists>w \<in> set non_ticket_words. contains w (lower ''Dear guest, welcome'')) \<and>
                (\<forall>w \<in> set ticket_words. \<not> contains w (lower ''Dear guest, welcome'')))"
    by code_simp
  have f4: "length (filter (\<lambda>kw. contains kw (lower ''Dear guest, welcome'')) flight_kw) = 0"
    by code_simp
  have t4: "length (filter (\<lambda>kw. contains kw (lower ''Dear guest, welcome'')) train_kw) = 0"
    by code_simp
  have d: "detect_ticket_type ''Dear guest, welcome'' = ''UNKNOWN''"
    using detect_ticket_type_rule [OF refl refl refl, of "''Dear guest, welcome''"] n4
    unfolding f4 t4 by simp
  show ?thesis using a b c d by simp
qed

section \<open>The booking reference\<close>

lemma first_of_length_10_length: "first_of_length_10 ss = Some p \<Longrightarrow> length p = 10"
  by (induction ss) (auto simp add: Let_def split: if_splits)

text \<open>
  C5. The three rules are tried in this order and the first that succeeds gives the result:
  ten digits separated by whitespace, joined to a string of length 10; a token of 6 to 10
  letters or digits after the label PNR, in upper case; the first of the bare sequences of 10
  digits that does not start with an excluded prefix. Of the texts of the specification,
  \<open>6 5 6 2 5 2 6 4 9 6\<close> gives \<open>6562526496\<close>, \<open>PNR: AB12CD\<close> gives \<open>AB12CD\<close>, and the bare
  \<open>2026021399\<close> is not a candidate.
\<close>

theorem extract_pnr_first_match_wins:
  "(\<forall>p. extract_spaced_pnr text = Some p \<longrightarrow>
        length p = 10 \<and> extract_pnr_from_text text = Some p) \<and>
   (\<forall>m. extract_spaced_pnr text = None \<and> re_search labelled_pnr_rx text = Some m \<longrightarrow>
        extract_pnr_from_text text = Some (upper (group_str m 1))) \<and>
   (extract_spaced_pnr text = None \<and> re_search labelled_pnr_rx text = None \<longrightarrow>
        extract_pnr_from_text text =
          (case filter (\<lambda>c. \<not> (\<exists>p \<in> set non_pnr_prefixes. startswith c p))
                  (map (\<lambda>m. group_str m 0) (re_findall bare_pnr_rx text)) of
             [] \<Rightarrow> None | c # cs \<Rightarrow> Some c)) \<and>
   extract_pnr_from_text ''6 5 6 2 5 2 6 4 9 6'' = Some ''6562526496'' \<and>
   extract_pnr_from_text ''PNR: AB12CD'' = Some ''AB12CD'' \<and>
   bare_candidates ''2026021399'' = [] \<and>
   extract_pnr_from_text ''2026021399'' = None"
proof -
  have r1: "length p = 10 \<and> extract_pnr_from_text text = Some p"
    if "extract_spaced_pnr text = Some p" for p
  proof -
    have "length p = 10"
      using that first_of_length_10_length by (simp add: extract_spaced_pnr_def)
    then have "p \<noteq> []" by auto
    then show ?thesis using that \<open>length p = 10\<close> by (simp add: extract_pnr_from_text_def)
  qed
  have r2: "extract_pnr_from_text text = Some (upper (group_str m 1))"
    if "extract_spaced_pnr text = None \<and> re_search labelled_pnr_rx text = Some m" for m
    using that by (simp add: extract_pnr_from_text_def)
  have r3: "extract_pnr_from_text text =
          (case filter (\<lambda>c. \<not> (\<exists>p \<in> set non_pnr_prefixes. startswith c p))
                  (map (\<lambda>m. group_str m 0) (re_findall bare_pnr_rx text)) of
             [] \<Rightarrow> None | c # cs \<Rightarrow> Some c)"
    if "extract_spaced_pnr text = None \<and> re_search labelled_pnr_rx text = None"
    using that
    by (simp add: extract_pnr_from_text_def bare_candidates_def py_any_def list_ex_iff
          split: list.splits)
  have e1: "extract_pnr_from_text ''6 5 6 2 5 2 6 4 9 6'' = Some ''6562526496''" by code_simp
  have e2: "extract_pnr_from_text ''PNR: AB12CD'' = Some ''AB12CD''" by code_simp
  have e3: "bare_candidates ''2026021399'' = []" by code_simp
  have e4: "extract_pnr_from_text ''2026021399'' = None" by code_simp
  show ?thesis using r1 r2 r3 e1 e2 e3 e4 by blast
qed

theorem extract_pnr_first_match_wins_witness:
  "extract_spaced_pnr ''PNR: AB12CD 6 5 6 2 5 2 6 4 9 6 4512345678'' = Some ''6562526496'' \<and>
   extract_pnr_from_text ''PNR: AB12CD 6 5 6 2 5 2 6 4 9 6 4512345678'' = Some ''6562526496'' \<and>
   extract_spaced_pnr ''4512345678 pnr: ab12cd'' = None \<and>
   map_option (\<lambda>m. group_str m 1) (re_search labelled_pnr_rx ''4512345678 pnr: ab12cd'') =
     Some ''ab12cd'' \<and>
   extract_pnr_from_text ''4512345678 pnr: ab12cd'' = Some ''AB12CD'' \<and>
   extract_spaced_pnr ''2026021399 9821234567 4512345678 4598765432'' = None \<and>
   re_search labelled_pnr_rx ''2026021399 9821234567 4512345678 4598765432'' = None \<and>
   extract_pnr_from_text ''2026021399 9821234567 4512345678 4598765432'' = Some ''4512345678''"
proof -
  have a1: "extract_spaced_pnr ''PNR: AB12CD 6 5 6 2 5 2 6 4 9 6 4512345678'' = Some ''6562526496''"
    by code_simp
  have a: "extract_pnr_from_text ''PNR: AB12CD 6 5 6 2 5 2 6 4 9 6 4512345678'' = Some ''6562526496''"
    using extract_pnr_first_match_wins
            [of "''PNR: AB12CD 6 5 6 2 5 2 6 4 9 6 4512345678''", THEN conjunct1, rule_format, OF a1]
    by (rule conjunct2)
  have b1: "extract_spaced_pnr ''4512345678 pnr: ab12cd'' = None" by code_simp
  have b2: "re_search labelled_pnr_rx ''4512345678 pnr: ab12cd'' =
              Some [(0, ''pnr: ab12cd''), (1, ''ab12cd'')]" by code_simp
  have b3: "upper (group_str [(0, ''pnr: ab12cd''), (1, ''ab12cd'')] 1) = ''AB12CD''" by code_simp
  have b4: "group_str [(0, ''pnr: ab12cd''), (1, ''ab12cd'')] 1 = ''ab12cd''" by code_simp
  have b: "extract_pnr_from_text ''4512345678 pnr: ab12cd'' = Some ''AB12CD''"
    using extract_pnr_first_match_wins
            [of "''4512345678 pnr: ab12cd''", THEN conjunct2, THEN conjunct1, rule_format,
             OF conjI [OF b1 b2]]
    unfolding b3 .
  have c1: "extract_spaced_pnr ''2026021399 9821234567 4512345678 4598765432'' = None"
    by code_simp
  have c2: "re_search labelled_pnr_rx ''2026021399 9821234567 4512345678 4598765432'' = None"
    by code_simp
  have c3: "filter (\<lambda>c. \<not> (\<exists>p \<in> set non_pnr_prefixes. startswith c p))
              (map (\<lambda>m. group_str m 0)
                 (re_findall bare_pnr_rx ''2026021399 9821234567 4512345678 4598765432'')) =
            [''4512345678'', ''4598765432'']" by code_simp
  have c: "extract_pnr_from_text ''2026021399 9821234567 4512345678 4598765432'' =
             Some ''4512345678''"
    using extract_pnr_first_match_wins
            [of "''2026021399 9821234567 4512345678 4598765432''", THEN conjunct2, THEN conjunct2,
             THEN conjunct1, rule_format, OF conjI [OF c1 c2]]
    unfolding c3 by simp
  have b5: "map_option (\<lambda>m. group_str m 1) (re_search labelled_pnr_rx ''4512345678 pnr: ab12cd'') =
     Some ''ab12cd''"
    unfolding b2 option.map b4 ..
  show ?thesis by (intro conjI a1 a b1 b5 b c1 c2 c)
qed

section \<open>Normalization of names\<close>

lemma match_at_chr:
  "rx_match_at (Chr P) prev s =
     (case s of [] \<Rightarrow> None
      | c # cs \<Rightarrow> if P c then Some (Some c, cs, [(0, [c])]) else None)"
  by (simp add: rx_match_at_def split: list.splits)

lemma sub_chr: "rx_sub_from (Chr P) [] prev s = filter (\<lambda>c. \<not> P c) s"
proof (induction s arbitrary: prev)
  case Nil
  show ?case by (subst rx_sub_from.simps) (simp add: match_at_chr)
next
  case (Cons c cs)
  show ?case by (subst rx_sub_from.simps) (simp add: match_at_chr Cons)
qed

lemma run_star_chr:
  "\<exists>p more. rx_run (Star (Chr P)) (prev, s, caps) = (p, dropWhile P s, caps) # more"
proof (induction s arbitrary: prev)
  case Nil
  show ?case by simp
next
  case (Cons c cs)
  show ?case
  proof (cases "P c")
    case True
    obtain p more where "rx_run (Star (Chr P)) (Some c, cs, caps) = (p, dropWhile P cs, caps) # more"
      using Cons [of "Some c"] by blast
    then show ?thesis using True by simp
  next
    case False
    then show ?thesis by simp
  qed
qed

lemma match_at_spaces:
  "rx_match_at spaces_rx prev [] = None"
  "\<not> is_space c \<Longrightarrow> rx_match_at spaces_rx prev (c # cs) = None"
  "is_space c \<Longrightarrow> \<exists>p caps. rx_match_at spaces_rx prev (c # cs) = Some (p, dropWhile is_space cs, caps)"
proof -
  show "rx_match_at spaces_rx prev [] = None"
    by (simp add: rx_match_at_def spaces_rx_def rx_plus_def)
  show "\<not> is_space c \<Longrightarrow> rx_match_at spaces_rx prev (c # cs) = None"
    by (simp add: rx_match_at_def spaces_rx_def rx_plus_def)
  assume sp: "is_space c"
  obtain p more where "rx_run (Star (Chr is_space)) (Some c, cs, []) = (p, dropWhile is_space cs, []) # more"
    using run_star_chr by blast
  then show "\<exists>p caps. rx_match_at spaces_rx prev (c # cs) = Some (p, dropWhile is_space cs, caps)"
    using sp by (simp add: rx_match_at_def spaces_rx_def rx_plus_def)
qed

lemma sub_spaces: "rx_sub_from spaces_rx '' '' prev s = squeeze s"
proof (induction s arbitrary: prev rule: squeeze.induct)
  case 1
  show ?case by (subst rx_sub_from.simps) (simp add: match_at_spaces)
next
  case (2 c cs)
  show ?case
  proof (cases "is_space c")
    case True
    obtain p caps where m: "rx_match_at spaces_rx prev (c # cs) = Some (p, dropWhile is_space cs, caps)"
      using match_at_spaces(3) [OF True] by blast
    show ?thesis
      by (subst rx_sub_from.simps) (simp add: m True 2(1) length_dropWhile_le less_Suc_eq_le)
  next
    case False
    show ?thesis
      by (subst rx_sub_from.simps) (simp add: match_at_spaces(2) False 2(2))
  qed
qed

lemma sub_no_match: "rx_search_from r prev s = None \<Longrightarrow> rx_sub_from r repl prev s = s"
proof (induction s arbitrary: prev)
  case Nil
  then have "rx_match_at r prev [] = None"
    by (subst (asm) rx_search_from.simps) (auto split: option.splits prod.splits)
  then show ?case by (subst rx_sub_from.simps) simp
next
  case (Cons c cs)
  from Cons.prems have "rx_match_at r prev (c # cs) = None \<and> rx_search_from r (Some c) cs = None"
    by (subst (asm) rx_search_from.simps) (auto split: option.splits prod.splits)
  then show ?case
    by (subst rx_sub_from.simps) (simp add: Cons.IH)
qed

lemma normalize_name_eq:
  "normalize_name x =
     (if x = [] then []
      else strip (squeeze (filter (\<lambda>c. is_upper c \<or> c = CHR '' '')
                             (re_sub titles_rx [] (upper x)))))"
  by (simp add: normalize_name_def re_sub_def sub_spaces sub_chr not_upper_or_blank_rx_def)

lemma one_of_set: "one_of xs c \<longleftrightarrow> c \<in> set xs"
  by (induction xs) auto

lemma upper_not_lower: "list_all (\<lambda>c. \<not> one_of lower_letters c) (CHR '' '' # upper_letters)"
  by code_simp

lemma space_not_upper_all:
  "list_all (\<lambda>c. \<not> one_of upper_letters c)
     [CHR '' '', CHR 0x09, CHR 0x0A, CHR 0x0B, CHR 0x0C, CHR 0x0D, CHR 0x1C, CHR 0x1D, CHR 0x1E, CHR 0x1F]"
  by code_simp

lemma upper_char_fixed: "is_upper c \<or> c = CHR '' '' \<Longrightarrow> upper_char c = c"
proof -
  assume "is_upper c \<or> c = CHR '' ''"
  then have "c \<in> set (CHR '' '' # upper_letters)" by (auto simp add: is_upper_def one_of_set)
  then have "\<not> one_of lower_letters c" using upper_not_lower unfolding list_all_iff by blast
  then have "c \<notin> set lower_letters" by (simp add: one_of_set)
  moreover have "length lower_letters = length upper_letters"
    by (simp add: lower_letters_def upper_letters_def)
  ultimately have "map_of (zip lower_letters upper_letters) c = None"
    by (simp add: map_of_zip_is_None)
  then show ?thesis by (simp add: upper_char_def)
qed

lemma space_not_upper: "is_space c \<Longrightarrow> \<not> is_upper c"
  using space_not_upper_all unfolding list_all_iff is_space_def is_upper_def one_of_set by blast

lemma blank_is_space: "is_space CHR '' ''"
  by (simp add: is_space_def)

lemma set_squeeze: "set (squeeze s) \<subseteq> insert CHR '' '' (set s)"
proof (induction s rule: squeeze.induct)
  case 1
  show ?case by simp
next
  case (2 c cs)
  show ?case
  proof (cases "is_space c")
    case True
    have "set (dropWhile is_space cs) \<subseteq> set cs" by (auto dest: set_dropWhileD)
    then show ?thesis using True 2(1) by auto
  next
    case False
    then show ?thesis using 2(2) by auto
  qed
qed

lemma set_strip: "set (strip s) \<subseteq> set s"
  by (auto simp add: strip_def dest!: set_dropWhileD)

lemma squeeze_head:
  "\<not> is_space c \<Longrightarrow> squeeze (c # cs) = c # squeeze cs"
  by simp

lemma single_spaced_tl: "single_spaced (c # cs) \<Longrightarrow> single_spaced cs"
  by (cases cs) auto

lemma single_spaced_squeeze: "single_spaced (squeeze s)"
proof (induction s rule: squeeze.induct)
  case 1
  show ?case by simp
next
  case (2 c cs)
  show ?case
  proof (cases "is_space c")
    case True
    then have sq: "squeeze (c # cs) = CHR '' '' # squeeze (dropWhile is_space cs)" by simp
    show ?thesis
    proof (cases "dropWhile is_space cs")
      case Nil
      have "squeeze (c # cs) = [CHR '' '']" unfolding sq Nil by simp
      then show ?thesis by simp
    next
      case (Cons d ds)
      have "d = hd (dropWhile is_space cs)" unfolding Cons by simp
      then have nd: "\<not> is_space d" using hd_dropWhile [of is_space cs] Cons by auto
      have "single_spaced (squeeze (dropWhile is_space cs))" using 2(1) True by blast
      then have "single_spaced (d # squeeze ds)" unfolding Cons using nd by simp
      moreover have "squeeze (c # cs) = CHR '' '' # d # squeeze ds"
        unfolding sq Cons using nd by simp
      ultimately show ?thesis using nd by simp
    qed
  next
    case False
    then have sq: "squeeze (c # cs) = c # squeeze cs" by simp
    have ih: "single_spaced (squeeze cs)" using 2(2) False by blast
    show ?thesis
    proof (cases "squeeze cs")
      case Nil
      show ?thesis unfolding sq Nil using False by simp
    next
      case (Cons d ds)
      show ?thesis using ih unfolding sq Cons using False by simp
    qed
  qed
qed

lemma single_spaced_fixed: "single_spaced s \<Longrightarrow> squeeze s = s"
proof (induction s rule: single_spaced.induct)
  case 1
  show ?case by simp
next
  case (2 c)
  then show ?case by simp
next
  case (3 c d cs)
  then show ?case by auto
qed

lemma single_spaced_drop: "single_spaced s \<Longrightarrow> single_spaced (drop n s)"
proof (induction n arbitrary: s)
  case 0
  then show ?case by simp
next
  case (Suc n)
  then show ?case by (cases s) (auto dest: single_spaced_tl)
qed

lemma single_spaced_take: "single_spaced s \<Longrightarrow> single_spaced (take n s)"
proof (induction s arbitrary: n rule: single_spaced.induct)
  case 1
  show ?case by simp
next
  case (2 c)
  then show ?case by (cases n) auto
next
  case (3 c d cs)
  show ?case
  proof (cases n)
    case 0
    then show ?thesis by simp
  next
    case (Suc m)
    have "single_spaced (take m (d # cs))" using 3 by simp
    then show ?thesis using 3(2) Suc by (cases m) auto
  qed
qed

lemma strip_as_take_drop:
  "\<exists>k n. strip s = take k (drop n s)"
proof -
  obtain n where n: "dropWhile is_space s = drop n s"
    using dropWhile_eq_drop by blast
  obtain m where m: "dropWhile is_space (rev (drop n s)) = drop m (rev (drop n s))"
    using dropWhile_eq_drop by blast
  have r: "rev (drop m (rev w)) = take (length w - m) w" for w :: string
    by (simp add: rev_drop)
  have "strip s = rev (drop m (rev (drop n s)))"
    unfolding strip_def n m ..
  also have "\<dots> = take (length (drop n s) - m) (drop n s)"
    by (rule r)
  finally show ?thesis by blast
qed

lemma single_spaced_strip: "single_spaced s \<Longrightarrow> single_spaced (strip s)"
  using strip_as_take_drop [of s] by (auto simp add: single_spaced_take single_spaced_drop)

lemma strip_Nil: "strip [] = []"
  by (simp add: strip_def)

lemma strip_twice: "strip (strip s) = strip s"
proof -
  define u where "u = dropWhile is_space s"
  define v where "v = dropWhile is_space (rev u)"
  have v: "dropWhile is_space v = v" unfolding v_def by simp
  have g: "dropWhile is_space (rev v) = rev v"
  proof (cases "v = []")
    case True
    then show ?thesis by simp
  next
    case False
    have "rev u = takeWhile is_space (rev u) @ v" unfolding v_def by simp
    then have "last (rev u) = last v" using False by (metis last_appendR)
    moreover have "u \<noteq> []" using False unfolding v_def by auto
    ultimately have "last v = hd u" by (simp add: last_rev)
    moreover have "\<not> is_space (hd u)"
      using \<open>u \<noteq> []\<close> hd_dropWhile [of is_space s] unfolding u_def by blast
    ultimately have "\<not> is_space (hd (rev v))" using False by (simp add: hd_rev)
    then show ?thesis by (simp add: dropWhile_eq_self_iff)
  qed
  have "strip s = rev v" unfolding strip_def u_def v_def ..
  moreover have "strip (rev v) = rev v"
    unfolding strip_def g rev_rev_ident v ..
  ultimately show ?thesis by simp
qed

lemma normalized_chars:
  assumes "c \<in> set (normalize_name x)"
  shows "is_upper c \<or> c = CHR '' ''"
proof -
  from assms have "x \<noteq> []" by (auto simp add: normalize_name_eq)
  with assms have "c \<in> set (strip (squeeze (filter (\<lambda>c. is_upper c \<or> c = CHR '' '')
                                          (re_sub titles_rx [] (upper x)))))"
    by (simp add: normalize_name_eq)
  then have "c \<in> insert CHR '' '' (set (filter (\<lambda>c. is_upper c \<or> c = CHR '' '')
                                         (re_sub titles_rx [] (upper x))))"
    using set_strip set_squeeze by blast
  then show ?thesis by auto
qed

lemma normalized_shape:
  "upper (normalize_name x) = normalize_name x"
  "filter (\<lambda>c. is_upper c \<or> c = CHR '' '') (normalize_name x) = normalize_name x"
  "squeeze (normalize_name x) = normalize_name x"
  "strip (normalize_name x) = normalize_name x"
proof -
  show "upper (normalize_name x) = normalize_name x"
    unfolding upper_def by (rule map_idI) (auto dest!: normalized_chars intro: upper_char_fixed)
  show "filter (\<lambda>c. is_upper c \<or> c = CHR '' '') (normalize_name x) = normalize_name x"
    by (rule filter_True) (auto dest!: normalized_chars)
  show "squeeze (normalize_name x) = normalize_name x"
    by (rule single_spaced_fixed)
       (simp add: normalize_name_eq single_spaced_strip single_spaced_squeeze)
  show "strip (normalize_name x) = normalize_name x"
    by (simp add: normalize_name_eq strip_twice strip_Nil)
qed

lemma rx_run_shrinks:
  "st' \<in> set (rx_run r st) \<Longrightarrow> length (fst (snd st')) \<le> length (fst (snd st))"
proof (induction r st arbitrary: st' rule: rx_run.induct)
  case (1 P prev rest caps)
  then show ?case by (auto split: list.splits if_splits)
next
  case (2 st)
  then show ?case by simp
next
  case (3 a b st)
  from 3(3) obtain mid where mid: "mid \<in> set (rx_run a st)" "st' \<in> set (rx_run b mid)" by auto
  from 3(1) [OF mid(1)] 3(2) [OF mid(1) mid(2)] show ?case by simp
next
  case (4 a b st)
  from 4(3) have "st' \<in> set (rx_run a st) \<or> st' \<in> set (rx_run b st)" by simp
  then show ?case using 4(1) [of st'] 4(2) [of st'] by blast
next
  case (5 a prev rest caps)
  from 5(3) have "st' \<in> set (rx_run (Star a) (prev, rest, caps))" .
  then have "st' = (prev, rest, caps) \<or>
      (\<exists>mid \<in> set (rx_run a (prev, rest, caps)).
          length (fst (snd mid)) < length rest \<and> st' \<in> set (rx_run (Star a) mid))"
    unfolding rx_run.simps(5) [of a prev rest caps] by (auto simp del: rx_run.simps)
  then consider "st' = (prev, rest, caps)"
    | mid where "mid \<in> set (rx_run a (prev, rest, caps))" "length (fst (snd mid)) < length rest"
        "st' \<in> set (rx_run (Star a) mid)"
    by blast
  then show ?case
  proof cases
    case 1
    then show ?thesis by simp
  next
    case 2
    from 5(2) [of mid st'] 2 show ?thesis by simp
  qed
next
  case (6 a prev rest caps)
  from 6(3) have "st' \<in> set (rx_run (LazyStar a) (prev, rest, caps))" .
  then have "st' = (prev, rest, caps) \<or>
      (\<exists>mid \<in> set (rx_run a (prev, rest, caps)).
          length (fst (snd mid)) < length rest \<and> st' \<in> set (rx_run (LazyStar a) mid))"
    unfolding rx_run.simps(6) [of a prev rest caps] by (auto simp del: rx_run.simps)
  then consider "st' = (prev, rest, caps)"
    | mid where "mid \<in> set (rx_run a (prev, rest, caps))" "length (fst (snd mid)) < length rest"
        "st' \<in> set (rx_run (LazyStar a) mid)"
    by blast
  then show ?case
  proof cases
    case 1
    then show ?thesis by simp
  next
    case 2
    from 6(2) [of mid st'] 2 show ?thesis by simp
  qed
next
  case (7 prev rest caps)
  then show ?case by (auto split: if_splits)
next
  case (8 prev rest caps)
  then show ?case by (auto split: if_splits)
next
  case (9 prev rest caps)
  then show ?case by (auto split: if_splits)
next
  case (10 n a prev rest caps)
  then show ?case by fastforce
qed

lemma rx_run_consumes:
  "rx_consumes r \<Longrightarrow> st' \<in> set (rx_run r st) \<Longrightarrow>
     length (fst (snd st')) < length (fst (snd st))"
proof (induction r arbitrary: st st')
  case (Chr P)
  then show ?case by (cases st) (auto split: list.splits if_splits)
next
  case (Seq a b)
  from Seq.prems(2) obtain mid where mid: "mid \<in> set (rx_run a st)" "st' \<in> set (rx_run b mid)"
    by auto
  show ?case
  proof (cases "rx_consumes a")
    case True
    from Seq.IH(1) [OF True mid(1)] rx_run_shrinks [OF mid(2)] show ?thesis by simp
  next
    case False
    then have "rx_consumes b" using Seq.prems(1) by simp
    from Seq.IH(2) [OF this mid(2)] rx_run_shrinks [OF mid(1)] show ?thesis by simp
  qed
next
  case (Alt a b)
  from Alt.prems(2) have "st' \<in> set (rx_run a st) \<or> st' \<in> set (rx_run b st)" by simp
  then show ?case using Alt.IH(1) [of st' st] Alt.IH(2) [of st' st] Alt.prems(1) by auto
next
  case (Grp n a)
  then show ?case by (cases st) fastforce
qed simp_all

lemma match_at_consumes:
  "rx_consumes r \<Longrightarrow> rx_match_at r prev s = Some (p, rest, caps) \<Longrightarrow> length rest < length s"
proof -
  assume c: "rx_consumes r" and m: "rx_match_at r prev s = Some (p, rest, caps)"
  from m have "(p, rest, caps) \<in> set (rx_run (Grp 0 r) (prev, s, []))"
    by (auto simp add: rx_match_at_def split: list.splits)
  with rx_run_consumes [of "Grp 0 r" "(p, rest, caps)" "(prev, s, [])"] c show ?thesis by simp
qed

lemma length_sub_le:
  "rx_consumes r \<Longrightarrow> length (rx_sub_from r [] prev s) \<le> length s"
proof (induction r "[] :: string" prev s rule: rx_sub_from.induct)
  case (1 r prev s)
  show ?case
  proof (cases "rx_match_at r prev s")
    case None
    then show ?thesis using 1(1) 1(4)
      by (subst rx_sub_from.simps) (auto split: list.splits)
  next
    case (Some st)
    obtain p rest caps where st: "st = (p, rest, caps)" by (cases st) auto
    have l: "length rest < length s" using match_at_consumes [OF 1(4)] Some st by blast
    have "length (rx_sub_from r [] p rest) \<le> length rest"
      using 1(2) Some st l 1(4) by simp
    then show ?thesis using Some st l
      by (subst rx_sub_from.simps) simp
  qed
qed

lemma length_sub_less:
  "rx_consumes r \<Longrightarrow> rx_search_from r prev s \<noteq> None \<Longrightarrow>
     length (rx_sub_from r [] prev s) < length s"
proof (induction s arbitrary: prev)
  case Nil
  from Nil(2) obtain st where "rx_match_at r prev [] = Some st"
    by (subst (asm) rx_search_from.simps) (auto split: option.splits)
  then obtain p rest caps where "rx_match_at r prev [] = Some (p, rest, caps)"
    by (cases st) auto
  from match_at_consumes [OF Nil(1) this] show ?case by simp
next
  case (Cons c cs)
  show ?case
  proof (cases "rx_match_at r prev (c # cs)")
    case None
    then have "rx_search_from r (Some c) cs \<noteq> None"
      using Cons.prems(2) by (subst (asm) rx_search_from.simps) simp
    from Cons.IH [OF Cons.prems(1) this] show ?thesis using None
      by (subst rx_sub_from.simps) simp
  next
    case (Some st)
    obtain p rest caps where st: "st = (p, rest, caps)" by (cases st) auto
    have l: "length rest < length (c # cs)" using match_at_consumes [OF Cons.prems(1)] Some st by blast
    have "length (rx_sub_from r [] p rest) \<le> length rest" by (rule length_sub_le [OF Cons.prems(1)])
    then show ?thesis using Some st l
      by (subst rx_sub_from.simps) simp
  qed
qed

lemma titles_consume: "rx_consumes titles_rx"
  by code_simp

lemma length_squeeze: "length (squeeze s) \<le> length s"
proof (induction s rule: squeeze.induct)
  case 1
  show ?case by simp
next
  case (2 c cs)
  have "length (dropWhile is_space cs) \<le> length cs" by (rule length_dropWhile_le)
  then show ?case using 2 by (cases "is_space c") auto
qed

lemma length_strip: "length (strip s) \<le> length s"
proof -
  have "length (strip s) \<le> length (dropWhile is_space s)"
    using length_dropWhile_le [of is_space "rev (dropWhile is_space s)"] by (simp add: strip_def)
  also have "\<dots> \<le> length s" by (rule length_dropWhile_le)
  finally show ?thesis .
qed

text \<open>
  C8, as amended. A second normalization changes nothing exactly when no honorific or kinship
  token stands as a whole word in the normalized name.
\<close>

theorem normalize_name_stable:
  "normalize_name (normalize_name x) = normalize_name x \<longleftrightarrow>
     re_search titles_rx (normalize_name x) = None"
proof
  assume none: "re_search titles_rx (normalize_name x) = None"
  have "re_sub titles_rx [] (normalize_name x) = normalize_name x"
    using none by (simp add: re_search_def re_sub_def sub_no_match)
  then show "normalize_name (normalize_name x) = normalize_name x"
    unfolding normalize_name_eq [of "normalize_name x"]
    by (simp add: normalized_shape)
next
  assume fixed: "normalize_name (normalize_name x) = normalize_name x"
  show "re_search titles_rx (normalize_name x) = None"
  proof (rule ccontr)
    assume "re_search titles_rx (normalize_name x) \<noteq> None"
    then have less: "length (re_sub titles_rx [] (normalize_name x)) < length (normalize_name x)"
      using length_sub_less [OF titles_consume] by (simp add: re_search_def re_sub_def)
    then have "normalize_name x \<noteq> []" by auto
    then have "normalize_name (normalize_name x) =
        strip (squeeze (filter (\<lambda>c. is_upper c \<or> c = CHR '' '')
                          (re_sub titles_rx [] (normalize_name x))))"
      unfolding normalize_name_eq [of "normalize_name x"] by (simp add: normalized_shape)
    then have "length (normalize_name (normalize_name x)) =
        length (strip (squeeze (filter (\<lambda>c. is_upper c \<or> c = CHR '' '')
                                  (re_sub titles_rx [] (normalize_name x)))))"
      by (rule arg_cong)
    also have "\<dots> \<le> length (squeeze (filter (\<lambda>c. is_upper c \<or> c = CHR '' '')
                                      (re_sub titles_rx [] (normalize_name x))))"
      by (rule length_strip)
    also have "\<dots> \<le> length (filter (\<lambda>c. is_upper c \<or> c = CHR '' '')
                             (re_sub titles_rx [] (normalize_name x)))"
      by (rule length_squeeze)
    also have "\<dots> \<le> length (re_sub titles_rx [] (normalize_name x))"
      by (rule length_filter_le)
    finally have "length (normalize_name (normalize_name x)) \<le>
        length (re_sub titles_rx [] (normalize_name x))" .
    with less fixed show False by simp
  qed
qed

theorem normalize_name_stable_witness:
  "normalize_name ''Mr Rahul Sharma'' = ''RAHUL SHARMA'' \<and>
   re_search titles_rx ''RAHUL SHARMA'' = None \<and>
   normalize_name ''RAHUL SHARMA'' = ''RAHUL SHARMA''"
proof -
  have n: "normalize_name ''Mr Rahul Sharma'' = ''RAHUL SHARMA''" by code_simp
  have s: "re_search titles_rx ''RAHUL SHARMA'' = None" by code_simp
  have "re_search titles_rx (normalize_name ''Mr Rahul Sharma'') = None"
    unfolding n by (rule s)
  from normalize_name_stable [THEN iffD2, OF this]
  have "normalize_name ''RAHUL SHARMA'' = ''RAHUL SHARMA''" unfolding n .
  then show ?thesis using n s by simp
qed

text \<open>
  The claim as stated fails: stripping the dots of \<open>M.S. Dhoni\<close> leaves the token \<open>MS\<close>,
  which a second normalization removes.
\<close>

theorem normalize_name_not_idempotent:
  "normalize_name ''M.S. Dhoni'' = ''MS DHONI'' \<and>
   normalize_name (normalize_name ''M.S. Dhoni'') = ''DHONI''"
proof -
  have a: "normalize_name ''M.S. Dhoni'' = ''MS DHONI''" by code_simp
  have b: "normalize_name ''MS DHONI'' = ''DHONI''" by code_simp
  show ?thesis unfolding a b by simp
qed

section \<open>Exceptions in the extraction of flight details\<close>

text \<open>
  C2. The claim holds of the other extraction functions but not of
  \<open>extract_flight_details\<close>: on a flight transcript in which the first flight-number
  pattern finds nothing, \<open>m.groups()\<close> is called on \<open>None\<close> and raises. The transcript
  below has a passenger, so no required field is absent, and the record is an ERROR record.
\<close>

theorem flight_details_raise_without_flight_number:
  "detect_ticket_type flight_text_no_number = ''FLIGHT'' \<and>
   map p_name (extract_flight_passengers flight_text_no_number) = [''Mr Rahul Sharma''] \<and>
   re_search flight_code_rx flight_text_no_number = None \<and>
   extract_flight_details flight_text_no_number = Inl AttributeError \<and>
   process_ticket (ocr_gives flight_text_no_number) lookup dparse () filename mime_type =
     error_record (''Processing failed: '' @ str_of_error AttributeError) filename"
proof -
  have d: "detect_ticket_type flight_text_no_number = ''FLIGHT''" by code_simp
  have p: "map p_name (extract_flight_passengers flight_text_no_number) = [''Mr Rahul Sharma'']"
    by code_simp
  have s: "re_search flight_code_rx flight_text_no_number = None" by code_simp
  have e: "extract_flight_details flight_text_no_number = Inl AttributeError"
    by (simp add: extract_flight_details_def flight_number_of_def s)
  have "process_ticket (ocr_gives flight_text_no_number) lookup dparse () filename mime_type =
     error_record (''Processing failed: '' @ str_of_error AttributeError) filename"
    by (simp add: process_ticket_def ocr_gives_def d process_flight_def e)
  then show ?thesis using d p s e by simp
qed

section \<open>Passengers of a record\<close>





text \<open>
  A lookup that succeeds with an empty passenger list gives a TRAIN record with no passenger
  and no error: \<open>process_train\<close> has no check like that of \<open>process_flight\<close>.
\<close>

lemma train_record_with_empty_lookup:
  "td_mode (process_ticket (ocr_gives train_text_no_names) lookup_empty iso_dates () ''b.pdf''
              ''pdf'') = ''TRAIN'' \<and>
   td_error (process_ticket (ocr_gives train_text_no_names) lookup_empty iso_dates () ''b.pdf''
               ''pdf'') = None \<and>
   td_passengers (process_ticket (ocr_gives train_text_no_names) lookup_empty iso_dates () ''b.pdf''
                    ''pdf'') = []"
proof -
  have d: "detect_ticket_type train_text_no_names = ''TRAIN''" by code_simp
  have x: "extract_pnr_from_text train_text_no_names = Some ''4512345678''" by code_simp
  show ?thesis
    by (simp add: process_ticket_def ocr_gives_def d process_train_def x lookup_empty_def
          parse_train_response_def blank_record_def date_and_time_def split: prod.splits)
qed


end
